theory Spec2Isabelle
  imports Complex_Main
begin

section \<open>The C++ type double\<close>

text \<open>
  A \<^verbatim>\<open>double\<close> is an IEEE 754 binary64 value: a finite number, one of the two
  infinities, or a NaN. A finite value is carried as the real it denotes (the two zeros
  are not told apart, nor are the NaNs). Every arithmetic operation computes the exact
  result and rounds it once to the nearest double, ties to the even significand; the
  code is taken to be compiled that way (no fused multiply-add, no wider intermediate
  precision).
\<close>

datatype double = Finite real | PosInf | NegInf | NaN

text \<open>The nearest integer, ties to even.\<close>

definition round_half_even :: "real \<Rightarrow> int" where
  "round_half_even m =
     (let f = \<lfloor>m\<rfloor>; d = m - real_of_int f
      in if d < 1 / 2 then f else if d > 1 / 2 then f + 1
         else if even f then f else f + 1)"

text \<open>
  The spacing of the doubles around \<open>x \<noteq> 0\<close>: 52 fraction bits below the leading bit
  of \<open>x\<close>, and never finer than the subnormal spacing \<open>2\<^sup>-\<^sup>1\<^sup>0\<^sup>7\<^sup>4\<close>.
\<close>

definition ulp :: "real \<Rightarrow> real" where
  "ulp x = 2 powr real_of_int (max \<lfloor>log 2 \<bar>x\<bar>\<rfloor> (- 1022) - 52)"

text \<open>Rounding a real to a double; a result of magnitude \<open>2\<^sup>1\<^sup>0\<^sup>2\<^sup>4\<close> overflows.\<close>

definition round_double :: "real \<Rightarrow> double" where
  "round_double x =
     (if x = 0 then Finite 0
      else let r = real_of_int (round_half_even (x / ulp x)) * ulp x
           in if r \<ge> 2 ^ 1024 then PosInf
              else if r \<le> - (2 ^ 1024) then NegInf
              else Finite r)"

text \<open>The operators \<^verbatim>\<open>*\<close> and \<^verbatim>\<open>+\<close> on doubles.\<close>

fun dmul :: "double \<Rightarrow> double \<Rightarrow> double" where
  "dmul (Finite a) (Finite b) = round_double (a * b)"
| "dmul NaN b = NaN"
| "dmul a NaN = NaN"
| "dmul (Finite a) PosInf = (if a = 0 then NaN else if 0 < a then PosInf else NegInf)"
| "dmul (Finite a) NegInf = (if a = 0 then NaN else if 0 < a then NegInf else PosInf)"
| "dmul PosInf (Finite b) = (if b = 0 then NaN else if 0 < b then PosInf else NegInf)"
| "dmul NegInf (Finite b) = (if b = 0 then NaN else if 0 < b then NegInf else PosInf)"
| "dmul PosInf PosInf = PosInf"
| "dmul PosInf NegInf = NegInf"
| "dmul NegInf PosInf = NegInf"
| "dmul NegInf NegInf = PosInf"

fun dadd :: "double \<Rightarrow> double \<Rightarrow> double" where
  "dadd (Finite a) (Finite b) = round_double (a + b)"
| "dadd NaN b = NaN"
| "dadd a NaN = NaN"
| "dadd PosInf NegInf = NaN"
| "dadd NegInf PosInf = NaN"
| "dadd PosInf b = PosInf"
| "dadd a PosInf = PosInf"
| "dadd NegInf b = NegInf"
| "dadd a NegInf = NegInf"

text \<open>
  \<^verbatim>\<open>total / n\<close> for a count \<open>n > 0\<close>: the \<^verbatim>\<open>int\<close> converts to a double without
  rounding, and the quotient is rounded.
\<close>

fun ddiv_count :: "double \<Rightarrow> nat \<Rightarrow> double" where
  "ddiv_count (Finite t) n = round_double (t / real n)"
| "ddiv_count PosInf n = PosInf"
| "ddiv_count NegInf n = NegInf"
| "ddiv_count NaN n = NaN"

text \<open>
  The comparisons \<^verbatim>\<open>a < b\<close> and \<^verbatim>\<open>a <= b\<close>: false as soon as one side is a
  NaN. \<^verbatim>\<open>a > b\<close> is \<open>dless b a\<close> and \<^verbatim>\<open>a >= b\<close> is \<open>dle b a\<close>.
\<close>

fun dless :: "double \<Rightarrow> double \<Rightarrow> bool" where
  "dless NaN b = False"
| "dless a NaN = False"
| "dless (Finite a) (Finite b) = (a < b)"
| "dless a NegInf = False"
| "dless NegInf b = True"
| "dless PosInf b = False"
| "dless a PosInf = True"

fun dle :: "double \<Rightarrow> double \<Rightarrow> bool" where
  "dle NaN b = False"
| "dle a NaN = False"
| "dle (Finite a) (Finite b) = (a \<le> b)"
| "dle NegInf b = True"
| "dle a PosInf = True"
| "dle a b = False"


section \<open>Entity model (include/models.hpp)\<close>

text \<open>
  The three structs of \<^verbatim>\<open>models.hpp\<close> as records. A \<^verbatim>\<open>std::string\<close> is a
  \<^typ>\<open>string\<close>. \<^verbatim>\<open>Student\<close> and \<^verbatim>\<open>Grade\<close> both have a field
  \<^verbatim>\<open>roll_no\<close>; they are told apart by their qualified names.
\<close>

record Student =
  roll_no :: string
  name :: string
  address :: string
  contact :: string

record Course =
  code :: string
  title :: string
  description :: string
  teacher :: string

record Grade =
  roll_no :: string
  course_code :: string
  internal_mark :: double
  final_mark :: double

text \<open>
  \<^verbatim>\<open>Grade::weighted()\<close>: \<^verbatim>\<open>return 0.3 * internal_mark + 0.7 * final_mark;\<close>
  The literals are the doubles nearest to 0.3 and to 0.7.
\<close>

definition weighted :: "Grade \<Rightarrow> double" where
  "weighted g =
     dadd (dmul (round_double 0.3) (internal_mark g))
          (dmul (round_double 0.7) (final_mark g))"

text \<open>The range the comments of \<^verbatim>\<open>Grade\<close> give for both marks: \<^verbatim>\<open>0..100\<close>.\<close>

definition marks_in_range :: "Grade \<Rightarrow> bool" where
  "marks_in_range g =
     (dle (Finite 0) (internal_mark g) \<and> dle (internal_mark g) (Finite 100) \<and>
      dle (Finite 0) (final_mark g) \<and> dle (final_mark g) (Finite 100))"


section \<open>In-memory mirror (include/services.hpp, helpers.cpp)\<close>

record DataStore =
  all_students :: "Student list"
  all_courses :: "Course list"
  all_grades :: "Grade list"

text \<open>
  \<^verbatim>\<open>std::find_if(v.begin(), v.end(), p)\<close>: the position of the first element that
  satisfies \<open>p\<close>; \<open>None\<close> stands for \<^verbatim>\<open>v.end()\<close>.
\<close>

fun find_if :: "('a \<Rightarrow> bool) \<Rightarrow> 'a list \<Rightarrow> nat option" where
  "find_if p [] = None"
| "find_if p (x # xs) = (if p x then Some 0 else map_option Suc (find_if p xs))"

text \<open>
  The idiom \<^verbatim>\<open>v.erase(std::remove_if(v.begin(), v.end(), p), v.end())\<close>: the elements
  that satisfy \<open>p\<close> are dropped, the others keep their relative order.
\<close>

fun erase_remove_if :: "('a \<Rightarrow> bool) \<Rightarrow> 'a list \<Rightarrow> 'a list" where
  "erase_remove_if p [] = []"
| "erase_remove_if p (x # xs) =
     (if p x then erase_remove_if p xs else x # erase_remove_if p xs)"

subsection \<open>services.hpp\<close>

definition add_student :: "DataStore \<Rightarrow> Student \<Rightarrow> bool \<times> DataStore" where
  "add_student data s =
     (case find_if (\<lambda>x. Student.roll_no x = Student.roll_no s) (all_students data) of
        Some it \<Rightarrow> (False, data)
      | None \<Rightarrow> (True, data\<lparr>all_students := all_students data @ [s]\<rparr>))"

definition add_course :: "DataStore \<Rightarrow> Course \<Rightarrow> bool \<times> DataStore" where
  "add_course data c =
     (case find_if (\<lambda>x. code x = code c) (all_courses data) of
        Some it \<Rightarrow> (False, data)
      | None \<Rightarrow> (True, data\<lparr>all_courses := all_courses data @ [c]\<rparr>))"

definition enroll_student :: "DataStore \<Rightarrow> string \<Rightarrow> string \<Rightarrow> bool \<times> DataStore" where
  "enroll_student data roll ccode =
     (if find_if (\<lambda>x. Student.roll_no x = roll) (all_students data) = None
        then (False, data)
      else if find_if (\<lambda>x. code x = ccode) (all_courses data) = None
        then (False, data)
      else if find_if (\<lambda>g. Grade.roll_no g = roll \<and> course_code g = ccode)
                (all_grades data) \<noteq> None
        then (False, data)
      else (True, data\<lparr>all_grades := all_grades data @
              [\<lparr>Grade.roll_no = roll, course_code = ccode,
                internal_mark = Finite 0, final_mark = Finite 0\<rparr>]\<rparr>))"

definition enter_marks ::
  "DataStore \<Rightarrow> string \<Rightarrow> string \<Rightarrow> double \<Rightarrow> double \<Rightarrow> bool \<times> DataStore" where
  "enter_marks data roll ccode internal final =
     (if dless internal (Finite 0) \<or> dless (Finite 100) internal \<or>
         dless final (Finite 0) \<or> dless (Finite 100) final then (False, data)
      else case find_if (\<lambda>g. Grade.roll_no g = roll \<and> course_code g = ccode)
                  (all_grades data) of
        None \<Rightarrow> (False, data)
      | Some it \<Rightarrow>
          (True, data\<lparr>all_grades := (all_grades data)
             [it := (all_grades data ! it)\<lparr>internal_mark := internal,
                                            final_mark := final\<rparr>]\<rparr>))"

text \<open>
  \<^verbatim>\<open>student_report\<close> takes the store by const reference and only prints. What it
  prints is modelled as a value: \<open>StudentNotFound\<close> for the early return, otherwise the
  header (name, roll), one line per enrolment of the student (title, internal, final,
  weighted), the summary line (average, courses, passed) printed when \<open>n > 0\<close>, and
  whether "No courses enrolled." is printed. The C++ counters \<^verbatim>\<open>n\<close> and
  \<^verbatim>\<open>passed\<close> are \<^verbatim>\<open>int\<close>; they count elements of a vector and are modelled
  by \<^typ>\<open>nat\<close>.
\<close>

datatype report =
    StudentNotFound
  | Report (rep_name: string) (rep_roll: string)
      (rep_lines: "(string \<times> double \<times> double \<times> double) list")
      (rep_overall: "(double \<times> nat \<times> nat) option")
      (rep_no_courses: bool)

text \<open>One printed line: the course's title (its code when the course is not in the
  store), both marks and the weighted grade.\<close>

definition report_line :: "DataStore \<Rightarrow> Grade \<Rightarrow> string \<times> double \<times> double \<times> double" where
  "report_line data g =
     ((case find_if (\<lambda>x. code x = course_code g) (all_courses data) of
         None \<Rightarrow> course_code g
       | Some c \<Rightarrow> title (all_courses data ! c)),
      internal_mark g, final_mark g, weighted g)"

text \<open>The first loop: the lines of the report and the flag \<^verbatim>\<open>any\<close>.\<close>

fun report_lines ::
  "DataStore \<Rightarrow> string \<Rightarrow> Grade list \<Rightarrow> bool \<times> (string \<times> double \<times> double \<times> double) list
     \<Rightarrow> bool \<times> (string \<times> double \<times> double \<times> double) list" where
  "report_lines data roll [] acc = acc"
| "report_lines data roll (g # gs) (any, out) =
     (if Grade.roll_no g \<noteq> roll then report_lines data roll gs (any, out)
      else report_lines data roll gs (True, out @ [report_line data g]))"

text \<open>
  The second loop: \<^verbatim>\<open>total\<close> (here \<open>tot\<close>), \<^verbatim>\<open>n\<close> and \<^verbatim>\<open>passed\<close>.
\<close>

fun report_totals ::
  "string \<Rightarrow> Grade list \<Rightarrow> double \<times> nat \<times> nat \<Rightarrow> double \<times> nat \<times> nat" where
  "report_totals roll [] acc = acc"
| "report_totals roll (g # gs) (tot, n, passed) =
     (if Grade.roll_no g \<noteq> roll then report_totals roll gs (tot, n, passed)
      else report_totals roll gs
        (dadd tot (weighted g), n + 1,
         if dle (Finite 50) (weighted g) then passed + 1 else passed))"

definition student_report :: "DataStore \<Rightarrow> string \<Rightarrow> report" where
  "student_report data roll =
     (case find_if (\<lambda>x. Student.roll_no x = roll) (all_students data) of
        None \<Rightarrow> StudentNotFound
      | Some s \<Rightarrow>
          (case report_lines data roll (all_grades data) (False, []) of
             (any, out) \<Rightarrow>
               (case report_totals roll (all_grades data) (Finite 0, 0, 0) of
                  (tot, n, passed) \<Rightarrow>
                    Report (name (all_students data ! s))
                      (Student.roll_no (all_students data ! s))
                      out
                      (if n > 0 then Some (ddiv_count tot n, n, passed) else None)
                      (\<not> any))))"

subsection \<open>helpers.cpp\<close>

definition exists_student :: "DataStore \<Rightarrow> string \<Rightarrow> bool" where
  "exists_student d roll = list_ex (\<lambda>s. Student.roll_no s = roll) (all_students d)"

definition exists_course :: "DataStore \<Rightarrow> string \<Rightarrow> bool" where
  "exists_course d ccode = list_ex (\<lambda>c. code c = ccode) (all_courses d)"

definition already_enrolled :: "DataStore \<Rightarrow> string \<Rightarrow> string \<Rightarrow> bool" where
  "already_enrolled d roll ccode =
     list_ex (\<lambda>g. Grade.roll_no g = roll \<and> course_code g = ccode) (all_grades d)"

text \<open>
  The loops of \<^verbatim>\<open>apply_student_update\<close> and \<^verbatim>\<open>apply_course_update\<close>: the first
  element with the key is overwritten and the loop returns true at once.
\<close>

fun replace_student :: "Student \<Rightarrow> Student list \<Rightarrow> bool \<times> Student list" where
  "replace_student s [] = (False, [])"
| "replace_student s (it # rest) =
     (if Student.roll_no it = Student.roll_no s then (True, s # rest)
      else case replace_student s rest of (ok, rest') \<Rightarrow> (ok, it # rest'))"

fun replace_course :: "Course \<Rightarrow> Course list \<Rightarrow> bool \<times> Course list" where
  "replace_course c [] = (False, [])"
| "replace_course c (it # rest) =
     (if code it = code c then (True, c # rest)
      else case replace_course c rest of (ok, rest') \<Rightarrow> (ok, it # rest'))"

definition apply_student_update :: "DataStore \<Rightarrow> Student \<Rightarrow> bool \<times> DataStore" where
  "apply_student_update d s =
     (case replace_student s (all_students d) of
        (ok, xs) \<Rightarrow> (ok, d\<lparr>all_students := xs\<rparr>))"

definition apply_course_update :: "DataStore \<Rightarrow> Course \<Rightarrow> bool \<times> DataStore" where
  "apply_course_update d c =
     (case replace_course c (all_courses d) of
        (ok, xs) \<Rightarrow> (ok, d\<lparr>all_courses := xs\<rparr>))"

definition remove_student :: "DataStore \<Rightarrow> string \<Rightarrow> bool \<times> DataStore" where
  "remove_student d roll =
     (let s0 = length (all_students d);
          d1 = d\<lparr>all_students :=
                  erase_remove_if (\<lambda>s. Student.roll_no s = roll) (all_students d)\<rparr>;
          d2 = d1\<lparr>all_grades :=
                  erase_remove_if (\<lambda>g. Grade.roll_no g = roll) (all_grades d1)\<rparr>
      in (length (all_students d2) \<noteq> s0, d2))"

definition remove_course :: "DataStore \<Rightarrow> string \<Rightarrow> bool \<times> DataStore" where
  "remove_course d ccode =
     (let c0 = length (all_courses d);
          d1 = d\<lparr>all_courses :=
                  erase_remove_if (\<lambda>c. code c = ccode) (all_courses d)\<rparr>;
          d2 = d1\<lparr>all_grades :=
                  erase_remove_if (\<lambda>g. course_code g = ccode) (all_grades d1)\<rparr>
      in (length (all_courses d2) \<noteq> c0, d2))"

definition remove_enrollment :: "DataStore \<Rightarrow> string \<Rightarrow> string \<Rightarrow> bool \<times> DataStore" where
  "remove_enrollment d roll ccode =
     (let g0 = length (all_grades d);
          d1 = d\<lparr>all_grades :=
                  erase_remove_if (\<lambda>g. Grade.roll_no g = roll \<and> course_code g = ccode)
                    (all_grades d)\<rparr>
      in (length (all_grades d1) \<noteq> g0, d1))"


section \<open>Durable store (db.cpp)\<close>

text \<open>
  The state behind the handle \<^verbatim>\<open>sqlite3* db\<close>: the rows of the three tables of the
  DDL in \<^verbatim>\<open>db_init_and_seed\<close>, in storage order, and two flags. \<open>has_tables\<close> says
  that the three tables exist (one DDL batch creates them together); \<open>io_ok\<close> says that
  the engine can run statements on the file. The SQLite engine is a library outside the
  repository; the functions of this subsection give the statements of \<^verbatim>\<open>db.cpp\<close>
  the meaning their SQL text and the DDL have: a primary key is unique, a foreign key of
  \<^verbatim>\<open>grades\<close> needs its parent row (\<^verbatim>\<open>PRAGMA foreign_keys = ON\<close>), deleting a
  parent row deletes its \<^verbatim>\<open>grades\<close> rows (\<^verbatim>\<open>ON DELETE CASCADE\<close>), and a statement
  that violates a constraint changes nothing.
\<close>

record sqlite3 =
  io_ok :: bool
  has_tables :: bool
  students :: "Student list"
  courses :: "Course list"
  grades :: "Grade list"

datatype rc = SQLITE_DONE | SQLITE_CONSTRAINT

subsection \<open>The engine: the statements of db.cpp\<close>

text \<open>\<^verbatim>\<open>sqlite3_prepare_v2(db, sql, ...) == SQLITE_OK\<close> for a statement on the tables.\<close>

definition prepare_ok :: "sqlite3 \<Rightarrow> bool" where
  "prepare_ok db = (io_ok db \<and> has_tables db)"

text \<open>\<^verbatim>\<open>INSERT INTO students(roll_no,name,address,contact) VALUES(?,?,?,?)\<close>\<close>

definition step_insert_student :: "sqlite3 \<Rightarrow> Student \<Rightarrow> rc \<times> sqlite3" where
  "step_insert_student db s =
     (if list_ex (\<lambda>x. Student.roll_no x = Student.roll_no s) (students db)
      then (SQLITE_CONSTRAINT, db)
      else (SQLITE_DONE, db\<lparr>students := students db @ [s]\<rparr>))"

text \<open>\<^verbatim>\<open>INSERT INTO courses(code,title,description,teacher) VALUES(?,?,?,?)\<close>\<close>

definition step_insert_course :: "sqlite3 \<Rightarrow> Course \<Rightarrow> rc \<times> sqlite3" where
  "step_insert_course db c =
     (if list_ex (\<lambda>x. code x = code c) (courses db)
      then (SQLITE_CONSTRAINT, db)
      else (SQLITE_DONE, db\<lparr>courses := courses db @ [c]\<rparr>))"

text \<open>The two foreign keys of a \<^verbatim>\<open>grades\<close> row have their parent rows.\<close>

definition fk_ok :: "sqlite3 \<Rightarrow> Grade \<Rightarrow> bool" where
  "fk_ok db g =
     (list_ex (\<lambda>x. Student.roll_no x = Grade.roll_no g) (students db) \<and>
      list_ex (\<lambda>x. code x = course_code g) (courses db))"

text \<open>
  \<^verbatim>\<open>INSERT INTO grades(roll_no,course_code,internal_mark,final_mark) VALUES(...)\<close>:
  the composite primary key and the two foreign keys.
\<close>

definition step_insert_grade :: "sqlite3 \<Rightarrow> Grade \<Rightarrow> rc \<times> sqlite3" where
  "step_insert_grade db g =
     (if list_ex (\<lambda>x. Grade.roll_no x = Grade.roll_no g \<and> course_code x = course_code g)
           (grades db)
        then (SQLITE_CONSTRAINT, db)
      else if \<not> fk_ok db g
        then (SQLITE_CONSTRAINT, db)
      else (SQLITE_DONE, db\<lparr>grades := grades db @ [g]\<rparr>))"

text \<open>
  \<^verbatim>\<open>UPDATE grades SET internal_mark=?, final_mark=? WHERE roll_no=? AND course_code=?\<close>;
  the number is \<^verbatim>\<open>sqlite3_changes(db)\<close>, the rows the statement matched.
  \<^verbatim>\<open>sqlite3_bind_double\<close> binds a NaN as NULL, and both columns are
  \<^verbatim>\<open>NOT NULL\<close>: with a NaN the statement fails on the first row it matches.
\<close>

definition step_update_marks ::
  "sqlite3 \<Rightarrow> string \<Rightarrow> string \<Rightarrow> double \<Rightarrow> double \<Rightarrow> rc \<times> nat \<times> sqlite3" where
  "step_update_marks db roll ccode im fm =
     (let n = length (filter (\<lambda>g. Grade.roll_no g = roll \<and> course_code g = ccode)
                (grades db))
      in if (im = NaN \<or> fm = NaN) \<and> 0 < n then (SQLITE_CONSTRAINT, 0, db)
         else (SQLITE_DONE, n,
               db\<lparr>grades :=
                    map (\<lambda>g. if Grade.roll_no g = roll \<and> course_code g = ccode
                              then g\<lparr>internal_mark := im, final_mark := fm\<rparr> else g)
                      (grades db)\<rparr>))"

text \<open>\<^verbatim>\<open>UPDATE students SET name=?, address=?, contact=? WHERE roll_no=?\<close>\<close>

definition step_update_student :: "sqlite3 \<Rightarrow> Student \<Rightarrow> rc \<times> nat \<times> sqlite3" where
  "step_update_student db s =
     (SQLITE_DONE,
      length (filter (\<lambda>x. Student.roll_no x = Student.roll_no s) (students db)),
      db\<lparr>students :=
           map (\<lambda>x. if Student.roll_no x = Student.roll_no s
                     then x\<lparr>name := name s, address := address s, contact := contact s\<rparr>
                     else x)
             (students db)\<rparr>)"

text \<open>\<^verbatim>\<open>UPDATE courses SET title=?, description=?, teacher=? WHERE code=?\<close>\<close>

definition step_update_course :: "sqlite3 \<Rightarrow> Course \<Rightarrow> rc \<times> nat \<times> sqlite3" where
  "step_update_course db c =
     (SQLITE_DONE,
      length (filter (\<lambda>x. code x = code c) (courses db)),
      db\<lparr>courses :=
           map (\<lambda>x. if code x = code c
                     then x\<lparr>title := title c, description := description c,
                            teacher := teacher c\<rparr>
                     else x)
             (courses db)\<rparr>)"

text \<open>
  \<^verbatim>\<open>DELETE FROM students WHERE roll_no=?\<close>: the number counts the deleted
  \<^verbatim>\<open>students\<close> rows; each deleted row takes its \<^verbatim>\<open>grades\<close> rows with it.
\<close>

definition step_delete_student :: "sqlite3 \<Rightarrow> string \<Rightarrow> rc \<times> nat \<times> sqlite3" where
  "step_delete_student db roll =
     (let n = length (filter (\<lambda>x. Student.roll_no x = roll) (students db))
      in (SQLITE_DONE, n,
          if n = 0 then db
          else db\<lparr>students := filter (\<lambda>x. Student.roll_no x \<noteq> roll) (students db),
                  grades := filter (\<lambda>g. Grade.roll_no g \<noteq> roll) (grades db)\<rparr>))"

text \<open>\<^verbatim>\<open>DELETE FROM courses WHERE code=?\<close>, with the cascade to \<^verbatim>\<open>grades\<close>.\<close>

definition step_delete_course :: "sqlite3 \<Rightarrow> string \<Rightarrow> rc \<times> nat \<times> sqlite3" where
  "step_delete_course db ccode =
     (let n = length (filter (\<lambda>x. code x = ccode) (courses db))
      in (SQLITE_DONE, n,
          if n = 0 then db
          else db\<lparr>courses := filter (\<lambda>x. code x \<noteq> ccode) (courses db),
                  grades := filter (\<lambda>g. course_code g \<noteq> ccode) (grades db)\<rparr>))"

text \<open>\<^verbatim>\<open>DELETE FROM grades WHERE roll_no=? AND course_code=?\<close>\<close>

definition step_delete_enrollment ::
  "sqlite3 \<Rightarrow> string \<Rightarrow> string \<Rightarrow> rc \<times> nat \<times> sqlite3" where
  "step_delete_enrollment db roll ccode =
     (SQLITE_DONE,
      length (filter (\<lambda>g. Grade.roll_no g = roll \<and> course_code g = ccode) (grades db)),
      db\<lparr>grades :=
           filter (\<lambda>g. \<not> (Grade.roll_no g = roll \<and> course_code g = ccode)) (grades db)\<rparr>)"

text \<open>
  \<^verbatim>\<open>exec_sql\<close> on the DDL batch: \<^verbatim>\<open>CREATE TABLE IF NOT EXISTS\<close> leaves existing
  tables alone and creates missing ones empty.
\<close>

definition exec_sql_ddl :: "sqlite3 \<Rightarrow> bool \<times> sqlite3" where
  "exec_sql_ddl db =
     (if \<not> io_ok db then (False, db)
      else if has_tables db then (True, db)
      else (True, db\<lparr>has_tables := True, students := [], courses := [], grades := []\<rparr>))"

text \<open>
  \<^verbatim>\<open>exec_sql\<close> on a multi-row \<^verbatim>\<open>INSERT ... VALUES (...),(...)\<close>: the rows go in
  one after the other; when one violates a constraint the statement fails and none of
  its rows stays.
\<close>

fun insert_students :: "sqlite3 \<Rightarrow> Student list \<Rightarrow> rc \<times> sqlite3" where
  "insert_students db [] = (SQLITE_DONE, db)"
| "insert_students db (r # rs) =
     (case step_insert_student db r of
        (SQLITE_DONE, db') \<Rightarrow> insert_students db' rs
      | (SQLITE_CONSTRAINT, db') \<Rightarrow> (SQLITE_CONSTRAINT, db'))"

fun insert_courses :: "sqlite3 \<Rightarrow> Course list \<Rightarrow> rc \<times> sqlite3" where
  "insert_courses db [] = (SQLITE_DONE, db)"
| "insert_courses db (r # rs) =
     (case step_insert_course db r of
        (SQLITE_DONE, db') \<Rightarrow> insert_courses db' rs
      | (SQLITE_CONSTRAINT, db') \<Rightarrow> (SQLITE_CONSTRAINT, db'))"

fun insert_grades :: "sqlite3 \<Rightarrow> Grade list \<Rightarrow> rc \<times> sqlite3" where
  "insert_grades db [] = (SQLITE_DONE, db)"
| "insert_grades db (r # rs) =
     (case step_insert_grade db r of
        (SQLITE_DONE, db') \<Rightarrow> insert_grades db' rs
      | (SQLITE_CONSTRAINT, db') \<Rightarrow> (SQLITE_CONSTRAINT, db'))"

definition exec_sql_insert_students :: "sqlite3 \<Rightarrow> Student list \<Rightarrow> bool \<times> sqlite3" where
  "exec_sql_insert_students db rows =
     (if \<not> prepare_ok db then (False, db)
      else case insert_students db rows of
        (SQLITE_DONE, db') \<Rightarrow> (True, db')
      | (SQLITE_CONSTRAINT, db') \<Rightarrow> (False, db))"

definition exec_sql_insert_courses :: "sqlite3 \<Rightarrow> Course list \<Rightarrow> bool \<times> sqlite3" where
  "exec_sql_insert_courses db rows =
     (if \<not> prepare_ok db then (False, db)
      else case insert_courses db rows of
        (SQLITE_DONE, db') \<Rightarrow> (True, db')
      | (SQLITE_CONSTRAINT, db') \<Rightarrow> (False, db))"

definition exec_sql_insert_grades :: "sqlite3 \<Rightarrow> Grade list \<Rightarrow> bool \<times> sqlite3" where
  "exec_sql_insert_grades db rows =
     (if \<not> prepare_ok db then (False, db)
      else case insert_grades db rows of
        (SQLITE_DONE, db') \<Rightarrow> (True, db')
      | (SQLITE_CONSTRAINT, db') \<Rightarrow> (False, db))"


subsection \<open>db_init_and_seed\<close>

definition seed_students :: "Student list" where
  "seed_students =
     [\<lparr>Student.roll_no = ''S001'', name = ''Ava'', address = ''12 Oak St'',
       contact = ''021-111''\<rparr>,
      \<lparr>Student.roll_no = ''S002'', name = ''Leo'', address = ''34 Pine Ave'',
       contact = ''021-222''\<rparr>,
      \<lparr>Student.roll_no = ''S003'', name = ''Mia'', address = ''56 Willow Rd'',
       contact = ''021-333''\<rparr>]"

definition seed_courses :: "Course list" where
  "seed_courses =
     [\<lparr>code = ''MTH101'', title = ''Maths'', description = ''Numbers and algebra'',
       teacher = ''Mr. King''\<rparr>,
      \<lparr>code = ''SCI101'', title = ''Science'', description = ''Intro science'',
       teacher = ''Ms. Ray''\<rparr>,
      \<lparr>code = ''ENG101'', title = ''English'', description = ''Reading & writing'',
       teacher = ''Mrs. Lee''\<rparr>]"

definition seed_grades :: "Grade list" where
  "seed_grades =
     [\<lparr>Grade.roll_no = ''S001'', course_code = ''MTH101'', internal_mark = Finite 75,
       final_mark = Finite 88\<rparr>,
      \<lparr>Grade.roll_no = ''S001'', course_code = ''SCI101'', internal_mark = Finite 62,
       final_mark = Finite 70\<rparr>,
      \<lparr>Grade.roll_no = ''S002'', course_code = ''ENG101'', internal_mark = Finite 80,
       final_mark = Finite 92\<rparr>,
      \<lparr>Grade.roll_no = ''S003'', course_code = ''MTH101'', internal_mark = Finite 55,
       final_mark = Finite 60\<rparr>]"

text \<open>
  The lambda \<^verbatim>\<open>table_empty\<close>, applied to the rows of the table it names:
  \<^verbatim>\<open>SELECT 1 FROM table LIMIT 1\<close> yields a row when the table has one; when the
  statement cannot be prepared the lambda answers true.
\<close>

definition table_empty :: "sqlite3 \<Rightarrow> 'row list \<Rightarrow> bool" where
  "table_empty db rows = (if prepare_ok db then rows = [] else True)"

definition db_init_and_seed :: "sqlite3 \<Rightarrow> bool \<times> sqlite3" where
  "db_init_and_seed db =
     (case exec_sql_ddl db of
        (False, db1) \<Rightarrow> (False, db1)
      | (True, db1) \<Rightarrow>
     (case (if table_empty db1 (students db1)
            then exec_sql_insert_students db1 seed_students else (True, db1)) of
        (False, db2) \<Rightarrow> (False, db2)
      | (True, db2) \<Rightarrow>
     (case (if table_empty db2 (courses db2)
            then exec_sql_insert_courses db2 seed_courses else (True, db2)) of
        (False, db3) \<Rightarrow> (False, db3)
      | (True, db3) \<Rightarrow>
     (case (if table_empty db3 (grades db3)
            then exec_sql_insert_grades db3 seed_grades else (True, db3)) of
        (False, db4) \<Rightarrow> (False, db4)
      | (True, db4) \<Rightarrow> (True, db4)))))"

subsection \<open>db_load_all\<close>

definition db_load_all :: "sqlite3 \<Rightarrow> DataStore \<Rightarrow> bool \<times> DataStore" where
  "db_load_all db store =
     (if \<not> prepare_ok db
      then (False, \<lparr>all_students = [], all_courses = [], all_grades = []\<rparr>)
      else (True, \<lparr>all_students = students db, all_courses = courses db,
                   all_grades = grades db\<rparr>))"

subsection \<open>Persistence helpers\<close>

definition db_add_student :: "sqlite3 \<Rightarrow> Student \<Rightarrow> bool \<times> sqlite3" where
  "db_add_student db s =
     (if \<not> prepare_ok db then (False, db)
      else case step_insert_student db s of (rc, db') \<Rightarrow> (rc = SQLITE_DONE, db'))"

definition db_add_course :: "sqlite3 \<Rightarrow> Course \<Rightarrow> bool \<times> sqlite3" where
  "db_add_course db c =
     (if \<not> prepare_ok db then (False, db)
      else case step_insert_course db c of (rc, db') \<Rightarrow> (rc = SQLITE_DONE, db'))"

definition db_enroll :: "sqlite3 \<Rightarrow> string \<Rightarrow> string \<Rightarrow> bool \<times> sqlite3" where
  "db_enroll db roll ccode =
     (if \<not> prepare_ok db then (False, db)
      else case step_insert_grade db
               \<lparr>Grade.roll_no = roll, course_code = ccode,
                internal_mark = Finite 0, final_mark = Finite 0\<rparr> of
             (rc, db') \<Rightarrow> (rc = SQLITE_DONE, db'))"

definition db_enter_marks ::
  "sqlite3 \<Rightarrow> string \<Rightarrow> string \<Rightarrow> double \<Rightarrow> double \<Rightarrow> bool \<times> sqlite3" where
  "db_enter_marks db roll ccode im fm =
     (if \<not> prepare_ok db then (False, db)
      else case step_update_marks db roll ccode im fm of
             (rc, changes, db') \<Rightarrow> (rc = SQLITE_DONE \<and> changes > 0, db'))"

definition db_update_student :: "sqlite3 \<Rightarrow> Student \<Rightarrow> bool \<times> sqlite3" where
  "db_update_student db s =
     (if \<not> prepare_ok db then (False, db)
      else case step_update_student db s of
             (rc, changes, db') \<Rightarrow> (rc = SQLITE_DONE \<and> changes > 0, db'))"

definition db_update_course :: "sqlite3 \<Rightarrow> Course \<Rightarrow> bool \<times> sqlite3" where
  "db_update_course db c =
     (if \<not> prepare_ok db then (False, db)
      else case step_update_course db c of
             (rc, changes, db') \<Rightarrow> (rc = SQLITE_DONE \<and> changes > 0, db'))"

definition db_delete_student :: "sqlite3 \<Rightarrow> string \<Rightarrow> bool \<times> sqlite3" where
  "db_delete_student db roll =
     (if \<not> prepare_ok db then (False, db)
      else case step_delete_student db roll of
             (rc, changes, db') \<Rightarrow> (rc = SQLITE_DONE \<and> changes > 0, db'))"

definition db_delete_course :: "sqlite3 \<Rightarrow> string \<Rightarrow> bool \<times> sqlite3" where
  "db_delete_course db ccode =
     (if \<not> prepare_ok db then (False, db)
      else case step_delete_course db ccode of
             (rc, changes, db') \<Rightarrow> (rc = SQLITE_DONE \<and> changes > 0, db'))"

definition db_delete_enrollment :: "sqlite3 \<Rightarrow> string \<Rightarrow> string \<Rightarrow> bool \<times> sqlite3" where
  "db_delete_enrollment db roll ccode =
     (if \<not> prepare_ok db then (False, db)
      else case step_delete_enrollment db roll ccode of
             (rc, changes, db') \<Rightarrow> (rc = SQLITE_DONE \<and> changes > 0, db'))"


section \<open>The write steps of the menu loop (PSPSchool-StudentMS.cpp)\<close>

text \<open>
  Each mutating menu branch of \<^verbatim>\<open>main\<close> ends in
  \<^verbatim>\<open>if (db_op(db, args) && mirror_op(data, args))\<close>. The operator \<^verbatim>\<open>&&\<close>
  evaluates its right operand only when the left one is true: \<open>and_then\<close> takes the
  outcome of the store call and runs the mirror call on \<open>data\<close> only after a true.
  The functions \<open>main_...\<close> are these nine conditions, with the prompted values as
  arguments; each returns the value of the condition, the store and the mirror.
\<close>

definition and_then ::
  "bool \<times> sqlite3 \<Rightarrow> (DataStore \<Rightarrow> bool \<times> DataStore) \<Rightarrow> DataStore
     \<Rightarrow> bool \<times> sqlite3 \<times> DataStore" where
  "and_then stored mirror_op data =
     (case stored of
        (False, db') \<Rightarrow> (False, db', data)
      | (True, db') \<Rightarrow> (case mirror_op data of (ok, data') \<Rightarrow> (ok, db', data')))"

definition main_add_student ::
  "sqlite3 \<Rightarrow> DataStore \<Rightarrow> Student \<Rightarrow> bool \<times> sqlite3 \<times> DataStore" where
  "main_add_student db data s =
     and_then (db_add_student db s) (\<lambda>d. add_student d s) data"

definition main_add_course ::
  "sqlite3 \<Rightarrow> DataStore \<Rightarrow> Course \<Rightarrow> bool \<times> sqlite3 \<times> DataStore" where
  "main_add_course db data c =
     and_then (db_add_course db c) (\<lambda>d. add_course d c) data"

definition main_enroll ::
  "sqlite3 \<Rightarrow> DataStore \<Rightarrow> string \<Rightarrow> string \<Rightarrow> bool \<times> sqlite3 \<times> DataStore" where
  "main_enroll db data r ccode =
     and_then (db_enroll db r ccode) (\<lambda>d. enroll_student d r ccode) data"

definition main_enter_marks ::
  "sqlite3 \<Rightarrow> DataStore \<Rightarrow> string \<Rightarrow> string \<Rightarrow> double \<Rightarrow> double
     \<Rightarrow> bool \<times> sqlite3 \<times> DataStore" where
  "main_enter_marks db data r ccode im fm =
     and_then (db_enter_marks db r ccode im fm) (\<lambda>d. enter_marks d r ccode im fm) data"

definition main_update_student ::
  "sqlite3 \<Rightarrow> DataStore \<Rightarrow> Student \<Rightarrow> bool \<times> sqlite3 \<times> DataStore" where
  "main_update_student db data upd =
     and_then (db_update_student db upd) (\<lambda>d. apply_student_update d upd) data"

definition main_update_course ::
  "sqlite3 \<Rightarrow> DataStore \<Rightarrow> Course \<Rightarrow> bool \<times> sqlite3 \<times> DataStore" where
  "main_update_course db data upd =
     and_then (db_update_course db upd) (\<lambda>d. apply_course_update d upd) data"

definition main_delete_student ::
  "sqlite3 \<Rightarrow> DataStore \<Rightarrow> string \<Rightarrow> bool \<times> sqlite3 \<times> DataStore" where
  "main_delete_student db data roll =
     and_then (db_delete_student db roll) (\<lambda>d. remove_student d roll) data"

definition main_delete_course ::
  "sqlite3 \<Rightarrow> DataStore \<Rightarrow> string \<Rightarrow> bool \<times> sqlite3 \<times> DataStore" where
  "main_delete_course db data ccode =
     and_then (db_delete_course db ccode) (\<lambda>d. remove_course d ccode) data"

definition main_delete_enrollment ::
  "sqlite3 \<Rightarrow> DataStore \<Rightarrow> string \<Rightarrow> string \<Rightarrow> bool \<times> sqlite3 \<times> DataStore" where
  "main_delete_enrollment db data r ccode =
     and_then (db_delete_enrollment db r ccode) (\<lambda>d. remove_enrollment d r ccode) data"


section \<open>Sample rows and states\<close>

text \<open>
  Three states of the store: a file that \<^verbatim>\<open>db_open\<close> has just created, the store
  with the seed rows, and that store behind a handle on which no statement runs.
\<close>

definition fresh_db :: sqlite3 where
  "fresh_db = \<lparr>io_ok = True, has_tables = False, students = [], courses = [],
                grades = []\<rparr>"

definition seeded_db :: sqlite3 where
  "seeded_db = \<lparr>io_ok = True, has_tables = True, students = seed_students,
                 courses = seed_courses, grades = seed_grades\<rparr>"

definition broken_db :: sqlite3 where
  "broken_db = seeded_db\<lparr>io_ok := False\<rparr>"

text \<open>The mirror that \<^verbatim>\<open>db_load_all\<close> builds from the seeded store.\<close>

definition seeded_data :: DataStore where
  "seeded_data = \<lparr>all_students = seed_students, all_courses = seed_courses,
                   all_grades = seed_grades\<rparr>"

text \<open>
  A student and a course that are not in the seed, an edited copy of the first seed
  student and of the first seed course, a mirror in which student \<^verbatim>\<open>S001\<close> has
  two enrolments with the marks (25, 75) and (90, 90), and a mirror in which student
  \<^verbatim>\<open>S002\<close> has two enrolments with the marks (1, 71) and (43, 53).
\<close>

definition new_student :: Student where
  "new_student = \<lparr>Student.roll_no = ''S010'', name = ''Ava Lee'', address = ''1 Test Rd'',
                   contact = ''021-000''\<rparr>"

definition new_course :: Course where
  "new_course = \<lparr>code = ''ART101'', title = ''Art'', description = ''Drawing'',
                  teacher = ''Ms. Hill''\<rparr>"

definition edited_student :: Student where
  "edited_student = \<lparr>Student.roll_no = ''S001'', name = ''Ava Lee'',
                      address = ''1 Test Rd'', contact = ''021-000''\<rparr>"

definition edited_course :: Course where
  "edited_course = \<lparr>code = ''MTH101'', title = ''Algebra'',
                     description = ''More numbers'', teacher = ''Mr. King''\<rparr>"

definition report_data :: DataStore where
  "report_data =
     \<lparr>all_students = seed_students, all_courses = seed_courses,
      all_grades =
        [\<lparr>Grade.roll_no = ''S001'', course_code = ''MTH101'', internal_mark = Finite 25,
          final_mark = Finite 75\<rparr>,
         \<lparr>Grade.roll_no = ''S002'', course_code = ''ENG101'', internal_mark = Finite 10,
          final_mark = Finite 20\<rparr>,
         \<lparr>Grade.roll_no = ''S001'', course_code = ''SCI101'', internal_mark = Finite 90,
          final_mark = Finite 90\<rparr>]\<rparr>"

definition borderline_data :: DataStore where
  "borderline_data =
     \<lparr>all_students = seed_students, all_courses = seed_courses,
      all_grades =
        [\<lparr>Grade.roll_no = ''S002'', course_code = ''MTH101'', internal_mark = Finite 1,
          final_mark = Finite 71\<rparr>,
         \<lparr>Grade.roll_no = ''S002'', course_code = ''ENG101'', internal_mark = Finite 43,
          final_mark = Finite 53\<rparr>]\<rparr>"


section \<open>Facts about the list idioms\<close>

lemma find_if_None_iff: "find_if p xs = None \<longleftrightarrow> \<not> list_ex p xs"
  by (induction xs) auto

lemma find_if_first:
  "find_if p xs = Some i \<Longrightarrow> i < length xs \<and> p (xs ! i) \<and> (\<forall>j<i. \<not> p (xs ! j))"
proof (induction xs arbitrary: i)
  case Nil
  then show ?case by simp
next
  case (Cons x xs)
  show ?case
  proof (cases "p x")
    case True
    with Cons.prems show ?thesis by simp
  next
    case False
    with Cons.prems obtain k where k: "find_if p xs = Some k" "i = Suc k"
      by auto
    from Cons.IH [OF k(1)] False k(2) show ?thesis
      by (auto simp: less_Suc_eq_0_disj)
  qed
qed

lemma erase_remove_if_filter: "erase_remove_if p xs = filter (\<lambda>x. \<not> p x) xs"
  by (induction xs) auto

lemma length_filter_pos_iff: "0 < length (filter p xs) \<longleftrightarrow> list_ex p xs"
  by (induction xs) auto

lemma length_filter_neq_iff:
  "length (filter (\<lambda>x. \<not> p x) xs) \<noteq> length xs \<longleftrightarrow> list_ex p xs"
proof -
  have "length (filter p xs) + length (filter (\<lambda>x. \<not> p x) xs) = length xs"
    by (rule sum_length_filter_compl)
  moreover have "0 < length (filter p xs) \<longleftrightarrow> list_ex p xs"
    by (rule length_filter_pos_iff)
  ultimately show ?thesis by arith
qed

lemma exists_student_find_if:
  "exists_student d r \<longleftrightarrow> find_if (\<lambda>x. Student.roll_no x = r) (all_students d) \<noteq> None"
  by (simp add: exists_student_def find_if_None_iff)

lemma exists_course_find_if:
  "exists_course d cc \<longleftrightarrow> find_if (\<lambda>x. code x = cc) (all_courses d) \<noteq> None"
  by (simp add: exists_course_def find_if_None_iff)

lemma already_enrolled_find_if:
  "already_enrolled d r cc \<longleftrightarrow>
     find_if (\<lambda>g. Grade.roll_no g = r \<and> course_code g = cc) (all_grades d) \<noteq> None"
  by (simp add: already_enrolled_def find_if_None_iff)

lemmas seed_defs = seeded_db_def seeded_data_def broken_db_def fresh_db_def
  seed_students_def seed_courses_def seed_grades_def

lemmas sample_defs = new_student_def new_course_def edited_student_def edited_course_def

lemmas db_defs = db_add_student_def db_add_course_def db_enroll_def db_enter_marks_def
  db_update_student_def db_update_course_def db_delete_student_def db_delete_course_def
  db_delete_enrollment_def step_insert_student_def step_insert_course_def
  step_insert_grade_def step_update_marks_def step_update_student_def
  step_update_course_def step_delete_student_def step_delete_course_def
  step_delete_enrollment_def prepare_ok_def fk_ok_def

text \<open>The seeded store is what \<^verbatim>\<open>db_init_and_seed\<close> makes of a new file, and the seeded
  mirror is what \<^verbatim>\<open>db_load_all\<close> reads from it.\<close>

lemma db_init_and_seed_fresh: "db_init_and_seed fresh_db = (True, seeded_db)"
  by (simp add: db_init_and_seed_def exec_sql_ddl_def table_empty_def prepare_ok_def
      exec_sql_insert_students_def exec_sql_insert_courses_def exec_sql_insert_grades_def
      step_insert_student_def step_insert_course_def step_insert_grade_def fk_ok_def
      seed_defs)

lemma db_load_all_seeded: "db_load_all seeded_db store = (True, seeded_data)"
  by (simp add: db_load_all_def prepare_ok_def seeded_db_def seeded_data_def)


section \<open>The synchronisation protocol\<close>

lemma and_then_False:
  "\<not> fst stored \<Longrightarrow> and_then stored m data = (False, snd stored, data)"
  by (cases stored) (simp add: and_then_def)

lemma and_then_True:
  "fst stored \<Longrightarrow> and_then stored m data = (fst (m data), snd stored, snd (m data))"
  by (cases stored) (simp add: and_then_def split: prod.splits)

lemma and_then_store: "fst (snd (and_then stored m data)) = snd stored"
  by (cases stored) (simp add: and_then_def split: prod.splits bool.splits)

text \<open>
  Claim C1. In each of the nine mutating menu branches the store call runs first and its
  new store is kept whatever happens next; when the store call returns false the branch
  yields false and the mirror is the one it started with (the mirror call is not made);
  when the store call returns true the value and the mirror are those of the mirror call.
\<close>

theorem C1_store_first_then_mirror:
  "(\<not> fst (db_add_student db s) \<longrightarrow>
      main_add_student db data s = (False, snd (db_add_student db s), data)) \<and>
   (\<not> fst (db_add_course db c) \<longrightarrow>
      main_add_course db data c = (False, snd (db_add_course db c), data)) \<and>
   (\<not> fst (db_enroll db r cc) \<longrightarrow>
      main_enroll db data r cc = (False, snd (db_enroll db r cc), data)) \<and>
   (\<not> fst (db_enter_marks db r cc im fm) \<longrightarrow>
      main_enter_marks db data r cc im fm =
        (False, snd (db_enter_marks db r cc im fm), data)) \<and>
   (\<not> fst (db_update_student db s) \<longrightarrow>
      main_update_student db data s = (False, snd (db_update_student db s), data)) \<and>
   (\<not> fst (db_update_course db c) \<longrightarrow>
      main_update_course db data c = (False, snd (db_update_course db c), data)) \<and>
   (\<not> fst (db_delete_student db r) \<longrightarrow>
      main_delete_student db data r = (False, snd (db_delete_student db r), data)) \<and>
   (\<not> fst (db_delete_course db cc) \<longrightarrow>
      main_delete_course db data cc = (False, snd (db_delete_course db cc), data)) \<and>
   (\<not> fst (db_delete_enrollment db r cc) \<longrightarrow>
      main_delete_enrollment db data r cc =
        (False, snd (db_delete_enrollment db r cc), data)) \<and>
   (fst (db_add_student db s) \<longrightarrow>
      main_add_student db data s =
        (fst (add_student data s), snd (db_add_student db s), snd (add_student data s))) \<and>
   (fst (db_add_course db c) \<longrightarrow>
      main_add_course db data c =
        (fst (add_course data c), snd (db_add_course db c), snd (add_course data c))) \<and>
   (fst (db_enroll db r cc) \<longrightarrow>
      main_enroll db data r cc =
        (fst (enroll_student data r cc), snd (db_enroll db r cc),
         snd (enroll_student data r cc))) \<and>
   (fst (db_enter_marks db r cc im fm) \<longrightarrow>
      main_enter_marks db data r cc im fm =
        (fst (enter_marks data r cc im fm), snd (db_enter_marks db r cc im fm),
         snd (enter_marks data r cc im fm))) \<and>
   (fst (db_update_student db s) \<longrightarrow>
      main_update_student db data s =
        (fst (apply_student_update data s), snd (db_update_student db s),
         snd (apply_student_update data s))) \<and>
   (fst (db_update_course db c) \<longrightarrow>
      main_update_course db data c =
        (fst (apply_course_update data c), snd (db_update_course db c),
         snd (apply_course_update data c))) \<and>
   (fst (db_delete_student db r) \<longrightarrow>
      main_delete_student db data r =
        (fst (remove_student data r), snd (db_delete_student db r),
         snd (remove_student data r))) \<and>
   (fst (db_delete_course db cc) \<longrightarrow>
      main_delete_course db data cc =
        (fst (remove_course data cc), snd (db_delete_course db cc),
         snd (remove_course data cc))) \<and>
   (fst (db_delete_enrollment db r cc) \<longrightarrow>
      main_delete_enrollment db data r cc =
        (fst (remove_enrollment data r cc), snd (db_delete_enrollment db r cc),
         snd (remove_enrollment data r cc)))"
  unfolding main_add_student_def main_add_course_def main_enroll_def main_enter_marks_def
    main_update_student_def main_update_course_def main_delete_student_def
    main_delete_course_def main_delete_enrollment_def
  by (intro conjI impI and_then_False and_then_True) assumption+

text \<open>
  The witness of C1. On a handle on which no statement runs all nine store calls fail, and
  four more fail on the seeded store for a reason of their own (a duplicate enrolment, no
  row to update); every time the mirror stays as it was, although the mirror call alone
  would have changed it for the broken handle. On the seeded store the nine calls succeed
  for suitable arguments, and the store and the mirror receive the same change.
\<close>

theorem C1_witness:
  "(\<not> fst (db_add_student broken_db new_student) \<and>
    main_add_student broken_db seeded_data new_student = (False, broken_db, seeded_data) \<and>
    \<not> fst (db_add_course broken_db new_course) \<and>
    main_add_course broken_db seeded_data new_course = (False, broken_db, seeded_data) \<and>
    \<not> fst (db_enroll broken_db ''S002'' ''MTH101'') \<and>
    main_enroll broken_db seeded_data ''S002'' ''MTH101'' = (False, broken_db, seeded_data) \<and>
    \<not> fst (db_enter_marks broken_db ''S001'' ''MTH101'' (Finite 50) (Finite 60)) \<and>
    main_enter_marks broken_db seeded_data ''S001'' ''MTH101'' (Finite 50) (Finite 60) =
      (False, broken_db, seeded_data) \<and>
    \<not> fst (db_update_student broken_db edited_student) \<and>
    main_update_student broken_db seeded_data edited_student =
      (False, broken_db, seeded_data) \<and>
    \<not> fst (db_update_course broken_db edited_course) \<and>
    main_update_course broken_db seeded_data edited_course =
      (False, broken_db, seeded_data) \<and>
    \<not> fst (db_delete_student broken_db ''S001'') \<and>
    main_delete_student broken_db seeded_data ''S001'' = (False, broken_db, seeded_data) \<and>
    \<not> fst (db_delete_course broken_db ''MTH101'') \<and>
    main_delete_course broken_db seeded_data ''MTH101'' = (False, broken_db, seeded_data) \<and>
    \<not> fst (db_delete_enrollment broken_db ''S001'' ''MTH101'') \<and>
    main_delete_enrollment broken_db seeded_data ''S001'' ''MTH101'' =
      (False, broken_db, seeded_data)) \<and>
   (\<not> fst (db_enroll seeded_db ''S001'' ''MTH101'') \<and>
    main_enroll seeded_db seeded_data ''S001'' ''MTH101'' = (False, seeded_db, seeded_data) \<and>
    \<not> fst (db_enter_marks seeded_db ''S999'' ''MTH101'' (Finite 50) (Finite 60)) \<and>
    main_enter_marks seeded_db seeded_data ''S999'' ''MTH101'' (Finite 50) (Finite 60) =
      (False, seeded_db, seeded_data) \<and>
    \<not> fst (db_update_student seeded_db new_student) \<and>
    main_update_student seeded_db seeded_data new_student =
      (False, seeded_db, seeded_data) \<and>
    \<not> fst (db_update_course seeded_db new_course) \<and>
    main_update_course seeded_db seeded_data new_course =
      (False, seeded_db, seeded_data)) \<and>
   (fst (db_add_student seeded_db new_student) \<and>
    main_add_student seeded_db seeded_data new_student =
      (True, seeded_db\<lparr>students := seed_students @ [new_student]\<rparr>,
       seeded_data\<lparr>all_students := seed_students @ [new_student]\<rparr>) \<and>
    fst (db_add_course seeded_db new_course) \<and>
    main_add_course seeded_db seeded_data new_course =
      (True, seeded_db\<lparr>courses := seed_courses @ [new_course]\<rparr>,
       seeded_data\<lparr>all_courses := seed_courses @ [new_course]\<rparr>) \<and>
    fst (db_enroll seeded_db ''S002'' ''MTH101'') \<and>
    main_enroll seeded_db seeded_data ''S002'' ''MTH101'' =
      (True,
       seeded_db\<lparr>grades := seed_grades @
         [\<lparr>Grade.roll_no = ''S002'', course_code = ''MTH101'', internal_mark = Finite 0,
           final_mark = Finite 0\<rparr>]\<rparr>,
       seeded_data\<lparr>all_grades := seed_grades @
         [\<lparr>Grade.roll_no = ''S002'', course_code = ''MTH101'', internal_mark = Finite 0,
           final_mark = Finite 0\<rparr>]\<rparr>)) \<and>
   (fst (db_enter_marks seeded_db ''S001'' ''MTH101'' (Finite 50) (Finite 60)) \<and>
    main_enter_marks seeded_db seeded_data ''S001'' ''MTH101'' (Finite 50) (Finite 60) =
      (True,
       seeded_db\<lparr>grades :=
         \<lparr>Grade.roll_no = ''S001'', course_code = ''MTH101'', internal_mark = Finite 50,
          final_mark = Finite 60\<rparr> # tl seed_grades\<rparr>,
       seeded_data\<lparr>all_grades :=
         \<lparr>Grade.roll_no = ''S001'', course_code = ''MTH101'', internal_mark = Finite 50,
          final_mark = Finite 60\<rparr> # tl seed_grades\<rparr>) \<and>
    fst (db_update_student seeded_db edited_student) \<and>
    main_update_student seeded_db seeded_data edited_student =
      (True, seeded_db\<lparr>students := edited_student # tl seed_students\<rparr>,
       seeded_data\<lparr>all_students := edited_student # tl seed_students\<rparr>) \<and>
    fst (db_update_course seeded_db edited_course) \<and>
    main_update_course seeded_db seeded_data edited_course =
      (True, seeded_db\<lparr>courses := edited_course # tl seed_courses\<rparr>,
       seeded_data\<lparr>all_courses := edited_course # tl seed_courses\<rparr>) \<and>
    fst (db_delete_student seeded_db ''S001'') \<and>
    main_delete_student seeded_db seeded_data ''S001'' =
      (True, seeded_db\<lparr>students := tl seed_students, grades := drop 2 seed_grades\<rparr>,
       seeded_data\<lparr>all_students := tl seed_students,
         all_grades := drop 2 seed_grades\<rparr>) \<and>
    fst (db_delete_course seeded_db ''MTH101'') \<and>
    main_delete_course seeded_db seeded_data ''MTH101'' =
      (True,
       seeded_db\<lparr>courses := tl seed_courses,
         grades := [seed_grades ! 1, seed_grades ! 2]\<rparr>,
       seeded_data\<lparr>all_courses := tl seed_courses,
         all_grades := [seed_grades ! 1, seed_grades ! 2]\<rparr>) \<and>
    fst (db_delete_enrollment seeded_db ''S001'' ''MTH101'') \<and>
    main_delete_enrollment seeded_db seeded_data ''S001'' ''MTH101'' =
      (True, seeded_db\<lparr>grades := tl seed_grades\<rparr>,
       seeded_data\<lparr>all_grades := tl seed_grades\<rparr>))"
proof (intro conjI)
  note broken = C1_store_first_then_mirror [of broken_db new_student seeded_data new_course
      "''S002''" "''MTH101''" "Finite 50" "Finite 60"]
  note broken' = C1_store_first_then_mirror [of broken_db edited_student seeded_data
      edited_course "''S001''" "''MTH101''" "Finite 50" "Finite 60"]
  note dup = C1_store_first_then_mirror [of seeded_db new_student seeded_data new_course
      "''S001''" "''MTH101''" "Finite 50" "Finite 60"]
  note missing = C1_store_first_then_mirror [of seeded_db new_student seeded_data new_course
      "''S999''" "''MTH101''" "Finite 50" "Finite 60"]
  note fresh = C1_store_first_then_mirror [of seeded_db new_student seeded_data new_course
      "''S002''" "''MTH101''" "Finite 50" "Finite 60"]
  note known = C1_store_first_then_mirror [of seeded_db edited_student seeded_data
      edited_course "''S001''" "''MTH101''" "Finite 50" "Finite 60"]
  note defs = db_defs sample_defs seed_defs Let_def
  note mdefs = add_student_def add_course_def enroll_student_def enter_marks_def
    apply_student_update_def apply_course_update_def remove_student_def remove_course_def
    remove_enrollment_def Let_def sample_defs seed_defs

  show b1: "\<not> fst (db_add_student broken_db new_student)" by (simp add: defs)
  have "snd (db_add_student broken_db new_student) = broken_db" by (simp add: defs)
  with b1 broken
  show "main_add_student broken_db seeded_data new_student = (False, broken_db, seeded_data)"
    by simp
  show b2: "\<not> fst (db_add_course broken_db new_course)" by (simp add: defs)
  have "snd (db_add_course broken_db new_course) = broken_db" by (simp add: defs)
  with b2 broken
  show "main_add_course broken_db seeded_data new_course = (False, broken_db, seeded_data)"
    by simp
  show b3: "\<not> fst (db_enroll broken_db ''S002'' ''MTH101'')" by (simp add: defs)
  have "snd (db_enroll broken_db ''S002'' ''MTH101'') = broken_db" by (simp add: defs)
  with b3 broken
  show "main_enroll broken_db seeded_data ''S002'' ''MTH101'' = (False, broken_db, seeded_data)"
    by simp
  show b4: "\<not> fst (db_enter_marks broken_db ''S001'' ''MTH101'' (Finite 50) (Finite 60))" by (simp add: defs)
  have "snd (db_enter_marks broken_db ''S001'' ''MTH101'' (Finite 50) (Finite 60)) = broken_db"
    by (simp add: defs)
  with b4 broken'
  show "main_enter_marks broken_db seeded_data ''S001'' ''MTH101'' (Finite 50) (Finite 60) =
      (False, broken_db, seeded_data)"
    by simp
  show b5: "\<not> fst (db_update_student broken_db edited_student)" by (simp add: defs)
  have "snd (db_update_student broken_db edited_student) = broken_db" by (simp add: defs)
  with b5 broken'
  show "main_update_student broken_db seeded_data edited_student =
      (False, broken_db, seeded_data)"
    by simp
  show b6: "\<not> fst (db_update_course broken_db edited_course)" by (simp add: defs)
  have "snd (db_update_course broken_db edited_course) = broken_db" by (simp add: defs)
  with b6 broken'
  show "main_update_course broken_db seeded_data edited_course =
      (False, broken_db, seeded_data)"
    by simp
  show b7: "\<not> fst (db_delete_student broken_db ''S001'')" by (simp add: defs)
  have "snd (db_delete_student broken_db ''S001'') = broken_db" by (simp add: defs)
  with b7 broken'
  show "main_delete_student broken_db seeded_data ''S001'' = (False, broken_db, seeded_data)"
    by simp
  show b8: "\<not> fst (db_delete_course broken_db ''MTH101'')" by (simp add: defs)
  have "snd (db_delete_course broken_db ''MTH101'') = broken_db" by (simp add: defs)
  with b8 broken'
  show "main_delete_course broken_db seeded_data ''MTH101'' = (False, broken_db, seeded_data)"
    by simp
  show b9: "\<not> fst (db_delete_enrollment broken_db ''S001'' ''MTH101'')" by (simp add: defs)
  have "snd (db_delete_enrollment broken_db ''S001'' ''MTH101'') = broken_db"
    by (simp add: defs)
  with b9 broken'
  show "main_delete_enrollment broken_db seeded_data ''S001'' ''MTH101'' =
      (False, broken_db, seeded_data)"
    by simp

  show c1: "\<not> fst (db_enroll seeded_db ''S001'' ''MTH101'')" by (simp add: defs)
  have "snd (db_enroll seeded_db ''S001'' ''MTH101'') = seeded_db" by (simp add: defs)
  with c1 dup
  show "main_enroll seeded_db seeded_data ''S001'' ''MTH101'' = (False, seeded_db, seeded_data)"
    by simp
  show c2: "\<not> fst (db_enter_marks seeded_db ''S999'' ''MTH101'' (Finite 50) (Finite 60))" by (simp add: defs)
  have "snd (db_enter_marks seeded_db ''S999'' ''MTH101'' (Finite 50) (Finite 60)) = seeded_db"
    by (simp add: defs)
  with c2 missing
  show "main_enter_marks seeded_db seeded_data ''S999'' ''MTH101'' (Finite 50) (Finite 60) =
      (False, seeded_db, seeded_data)"
    by simp
  show c3: "\<not> fst (db_update_student seeded_db new_student)" by (simp add: defs)
  have "snd (db_update_student seeded_db new_student) = seeded_db" by (simp add: defs)
  with c3 dup
  show "main_update_student seeded_db seeded_data new_student =
      (False, seeded_db, seeded_data)"
    by simp
  show c4: "\<not> fst (db_update_course seeded_db new_course)" by (simp add: defs)
  have "snd (db_update_course seeded_db new_course) = seeded_db" by (simp add: defs)
  with c4 dup
  show "main_update_course seeded_db seeded_data new_course =
      (False, seeded_db, seeded_data)"
    by simp

  show t1: "fst (db_add_student seeded_db new_student)" by (simp add: defs)
  have "snd (db_add_student seeded_db new_student) =
      seeded_db\<lparr>students := seed_students @ [new_student]\<rparr>"
    by (simp add: defs)
  moreover have "add_student seeded_data new_student =
      (True, seeded_data\<lparr>all_students := seed_students @ [new_student]\<rparr>)"
    by (simp add: mdefs)
  ultimately show "main_add_student seeded_db seeded_data new_student =
      (True, seeded_db\<lparr>students := seed_students @ [new_student]\<rparr>,
       seeded_data\<lparr>all_students := seed_students @ [new_student]\<rparr>)"
    using t1 fresh by simp
  show t2: "fst (db_add_course seeded_db new_course)" by (simp add: defs)
  have "snd (db_add_course seeded_db new_course) =
      seeded_db\<lparr>courses := seed_courses @ [new_course]\<rparr>"
    by (simp add: defs)
  moreover have "add_course seeded_data new_course =
      (True, seeded_data\<lparr>all_courses := seed_courses @ [new_course]\<rparr>)"
    by (simp add: mdefs)
  ultimately show "main_add_course seeded_db seeded_data new_course =
      (True, seeded_db\<lparr>courses := seed_courses @ [new_course]\<rparr>,
       seeded_data\<lparr>all_courses := seed_courses @ [new_course]\<rparr>)"
    using t2 fresh by simp
  show t3: "fst (db_enroll seeded_db ''S002'' ''MTH101'')" by (simp add: defs)
  have "snd (db_enroll seeded_db ''S002'' ''MTH101'') =
      seeded_db\<lparr>grades := seed_grades @
         [\<lparr>Grade.roll_no = ''S002'', course_code = ''MTH101'', internal_mark = Finite 0,
           final_mark = Finite 0\<rparr>]\<rparr>"
    by (simp add: defs)
  moreover have "enroll_student seeded_data ''S002'' ''MTH101'' =
      (True, seeded_data\<lparr>all_grades := seed_grades @
         [\<lparr>Grade.roll_no = ''S002'', course_code = ''MTH101'', internal_mark = Finite 0,
           final_mark = Finite 0\<rparr>]\<rparr>)"
    by (simp add: mdefs)
  ultimately show "main_enroll seeded_db seeded_data ''S002'' ''MTH101'' =
      (True,
       seeded_db\<lparr>grades := seed_grades @
         [\<lparr>Grade.roll_no = ''S002'', course_code = ''MTH101'', internal_mark = Finite 0,
           final_mark = Finite 0\<rparr>]\<rparr>,
       seeded_data\<lparr>all_grades := seed_grades @
         [\<lparr>Grade.roll_no = ''S002'', course_code = ''MTH101'', internal_mark = Finite 0,
           final_mark = Finite 0\<rparr>]\<rparr>)"
    using t3 fresh by simp

  show t4: "fst (db_enter_marks seeded_db ''S001'' ''MTH101'' (Finite 50) (Finite 60))" by (simp add: defs)
  have "snd (db_enter_marks seeded_db ''S001'' ''MTH101'' (Finite 50) (Finite 60)) =
      seeded_db\<lparr>grades :=
         \<lparr>Grade.roll_no = ''S001'', course_code = ''MTH101'', internal_mark = Finite 50,
          final_mark = Finite 60\<rparr> # tl seed_grades\<rparr>"
    by (simp add: defs)
  moreover have "enter_marks seeded_data ''S001'' ''MTH101'' (Finite 50) (Finite 60) =
      (True, seeded_data\<lparr>all_grades :=
         \<lparr>Grade.roll_no = ''S001'', course_code = ''MTH101'', internal_mark = Finite 50,
          final_mark = Finite 60\<rparr> # tl seed_grades\<rparr>)"
    by (simp add: mdefs)
  ultimately show "main_enter_marks seeded_db seeded_data ''S001'' ''MTH101'' (Finite 50) (Finite 60) =
      (True,
       seeded_db\<lparr>grades :=
         \<lparr>Grade.roll_no = ''S001'', course_code = ''MTH101'', internal_mark = Finite 50,
          final_mark = Finite 60\<rparr> # tl seed_grades\<rparr>,
       seeded_data\<lparr>all_grades :=
         \<lparr>Grade.roll_no = ''S001'', course_code = ''MTH101'', internal_mark = Finite 50,
          final_mark = Finite 60\<rparr> # tl seed_grades\<rparr>)"
    using t4 known by simp
  show t5: "fst (db_update_student seeded_db edited_student)" by (simp add: defs)
  have "snd (db_update_student seeded_db edited_student) =
      seeded_db\<lparr>students := edited_student # tl seed_students\<rparr>"
    by (simp add: defs)
  moreover have "apply_student_update seeded_data edited_student =
      (True, seeded_data\<lparr>all_students := edited_student # tl seed_students\<rparr>)"
    by (simp add: mdefs)
  ultimately show "main_update_student seeded_db seeded_data edited_student =
      (True, seeded_db\<lparr>students := edited_student # tl seed_students\<rparr>,
       seeded_data\<lparr>all_students := edited_student # tl seed_students\<rparr>)"
    using t5 known by simp
  show t6: "fst (db_update_course seeded_db edited_course)" by (simp add: defs)
  have "snd (db_update_course seeded_db edited_course) =
      seeded_db\<lparr>courses := edited_course # tl seed_courses\<rparr>"
    by (simp add: defs)
  moreover have "apply_course_update seeded_data edited_course =
      (True, seeded_data\<lparr>all_courses := edited_course # tl seed_courses\<rparr>)"
    by (simp add: mdefs)
  ultimately show "main_update_course seeded_db seeded_data edited_course =
      (True, seeded_db\<lparr>courses := edited_course # tl seed_courses\<rparr>,
       seeded_data\<lparr>all_courses := edited_course # tl seed_courses\<rparr>)"
    using t6 known by simp
  show t7: "fst (db_delete_student seeded_db ''S001'')" by (simp add: defs)
  have "snd (db_delete_student seeded_db ''S001'') =
      seeded_db\<lparr>students := tl seed_students, grades := drop 2 seed_grades\<rparr>"
    by (simp add: defs)
  moreover have "remove_student seeded_data ''S001'' =
      (True, seeded_data\<lparr>all_students := tl seed_students,
         all_grades := drop 2 seed_grades\<rparr>)"
    by (simp add: mdefs)
  ultimately show "main_delete_student seeded_db seeded_data ''S001'' =
      (True, seeded_db\<lparr>students := tl seed_students, grades := drop 2 seed_grades\<rparr>,
       seeded_data\<lparr>all_students := tl seed_students,
         all_grades := drop 2 seed_grades\<rparr>)"
    using t7 known by simp
  show t8: "fst (db_delete_course seeded_db ''MTH101'')" by (simp add: defs)
  have "snd (db_delete_course seeded_db ''MTH101'') =
      seeded_db\<lparr>courses := tl seed_courses,
         grades := [seed_grades ! 1, seed_grades ! 2]\<rparr>"
    by (simp add: defs)
  moreover have "remove_course seeded_data ''MTH101'' =
      (True, seeded_data\<lparr>all_courses := tl seed_courses,
         all_grades := [seed_grades ! 1, seed_grades ! 2]\<rparr>)"
    by (simp add: mdefs)
  ultimately show "main_delete_course seeded_db seeded_data ''MTH101'' =
      (True,
       seeded_db\<lparr>courses := tl seed_courses,
         grades := [seed_grades ! 1, seed_grades ! 2]\<rparr>,
       seeded_data\<lparr>all_courses := tl seed_courses,
         all_grades := [seed_grades ! 1, seed_grades ! 2]\<rparr>)"
    using t8 known by simp
  show t9: "fst (db_delete_enrollment seeded_db ''S001'' ''MTH101'')" by (simp add: defs)
  have "snd (db_delete_enrollment seeded_db ''S001'' ''MTH101'') =
      seeded_db\<lparr>grades := tl seed_grades\<rparr>"
    by (simp add: defs)
  moreover have "remove_enrollment seeded_data ''S001'' ''MTH101'' =
      (True, seeded_data\<lparr>all_grades := tl seed_grades\<rparr>)"
    by (simp add: mdefs)
  ultimately show "main_delete_enrollment seeded_db seeded_data ''S001'' ''MTH101'' =
      (True, seeded_db\<lparr>grades := tl seed_grades\<rparr>,
       seeded_data\<lparr>all_grades := tl seed_grades\<rparr>)"
    using t9 known by simp
qed


section \<open>The mirror's insert and update of an enrolment\<close>

text \<open>
  Counterexample to claim C2 as stated (the call appends and returns true whatever the
  mirror holds): on the seeded mirror \<^verbatim>\<open>enroll_student\<close> returns false and changes
  nothing for a pair that is already enrolled, for a student that does not exist and for a
  course that does not exist.
\<close>

theorem C2_counterexample:
  "enroll_student seeded_data ''S001'' ''MTH101'' = (False, seeded_data) \<and>
   enroll_student seeded_data ''S999'' ''MTH101'' = (False, seeded_data) \<and>
   enroll_student seeded_data ''S001'' ''XXX999'' = (False, seeded_data)"
  by (simp add: enroll_student_def seed_defs)

text \<open>
  Claim C2, amended. \<^verbatim>\<open>enroll_student\<close> checks again: it appends
  \<^verbatim>\<open>Grade{roll_no, course_code, 0, 0}\<close> and returns true exactly when the student
  exists, the course exists and the pair is not enrolled yet; in every other case it
  returns false and leaves the mirror as it was.
\<close>

theorem C2_enroll_student_rechecks:
  "enroll_student d r cc =
     (if exists_student d r \<and> exists_course d cc \<and> \<not> already_enrolled d r cc
      then (True, d\<lparr>all_grades := all_grades d @
              [\<lparr>Grade.roll_no = r, course_code = cc, internal_mark = Finite 0, final_mark = Finite 0\<rparr>]\<rparr>)
      else (False, d))"
  by (simp add: enroll_student_def exists_student_find_if exists_course_find_if
      already_enrolled_find_if)

lemma range_guard_iff:
  "m \<noteq> NaN \<Longrightarrow>
     (\<not> dless m (Finite 0) \<and> \<not> dless (Finite 100) m) \<longleftrightarrow>
     (dle (Finite 0) m \<and> dle m (Finite 100))"
  by (cases m) auto

lemma dle_not_NaN: "dle a b \<Longrightarrow> a \<noteq> NaN \<and> b \<noteq> NaN"
  by (cases a; cases b) auto

text \<open>
  Counterexample to claim C3 as stated (no range validation inside the call; the presence
  of the enrolment alone decides the result): the enrolment of \<^verbatim>\<open>S001\<close> in
  \<^verbatim>\<open>MTH101\<close> is present, yet \<^verbatim>\<open>enter_marks\<close> returns false and changes nothing for
  the internal mark 150, and returns true for the marks 75 and 88.
\<close>

theorem C3_counterexample:
  "already_enrolled seeded_data ''S001'' ''MTH101'' \<and>
   enter_marks seeded_data ''S001'' ''MTH101'' (Finite 150) (Finite 88) =
     (False, seeded_data) \<and>
   fst (enter_marks seeded_data ''S001'' ''MTH101'' (Finite 75) (Finite 88))"
  by (simp add: enter_marks_def already_enrolled_def seed_defs)

text \<open>
  The guard of \<^verbatim>\<open>enter_marks\<close> is made of four comparisons, and each of them is false
  for a NaN: a NaN mark passes the guard and is stored when the enrolment is present.
\<close>

lemma enter_marks_NaN:
  "enter_marks seeded_data ''S001'' ''MTH101'' NaN (Finite 88) =
     (True, seeded_data\<lparr>all_grades :=
        \<lparr>Grade.roll_no = ''S001'', course_code = ''MTH101'', internal_mark = NaN,
         final_mark = Finite 88\<rparr> # tl seed_grades\<rparr>)"
  by (simp add: enter_marks_def seed_defs)

text \<open>
  Claim C3, amended. \<^verbatim>\<open>enter_marks\<close> validates the range itself: for marks that are
  numbers (no NaN) it returns true exactly when both marks lie in \<open>[0, 100]\<close> and an
  enrolment with the composite key is present. For all marks: when it returns false the
  mirror is unchanged; when it returns true the first enrolment with the key has both
  marks overwritten and nothing else changes.
\<close>

theorem C3_enter_marks_validates:
  "(i \<noteq> NaN \<and> f \<noteq> NaN \<longrightarrow>
      (fst (enter_marks d r cc i f) \<longleftrightarrow>
         dle (Finite 0) i \<and> dle i (Finite 100) \<and> dle (Finite 0) f \<and> dle f (Finite 100) \<and>
         already_enrolled d r cc)) \<and>
   (\<not> fst (enter_marks d r cc i f) \<longrightarrow> snd (enter_marks d r cc i f) = d) \<and>
   (fst (enter_marks d r cc i f) \<longrightarrow>
      (\<exists>k<length (all_grades d).
         Grade.roll_no (all_grades d ! k) = r \<and> course_code (all_grades d ! k) = cc \<and>
         (\<forall>j<k. \<not> (Grade.roll_no (all_grades d ! j) = r \<and>
                    course_code (all_grades d ! j) = cc)) \<and>
         snd (enter_marks d r cc i f) =
           d\<lparr>all_grades := (all_grades d)
               [k := \<lparr>Grade.roll_no = r, course_code = cc,
                      internal_mark = i, final_mark = f\<rparr>]\<rparr>))"
proof (intro conjI impI)
  assume "i \<noteq> NaN \<and> f \<noteq> NaN"
  then have gi: "(\<not> dless i (Finite 0) \<and> \<not> dless (Finite 100) i) \<longleftrightarrow>
        (dle (Finite 0) i \<and> dle i (Finite 100))"
    and gf: "(\<not> dless f (Finite 0) \<and> \<not> dless (Finite 100) f) \<longleftrightarrow>
        (dle (Finite 0) f \<and> dle f (Finite 100))"
    by (simp_all add: range_guard_iff)
  have "fst (enter_marks d r cc i f) \<longleftrightarrow>
      (\<not> dless i (Finite 0) \<and> \<not> dless (Finite 100) i) \<and>
      (\<not> dless f (Finite 0) \<and> \<not> dless (Finite 100) f) \<and> already_enrolled d r cc"
    by (auto simp: enter_marks_def already_enrolled_find_if split: option.splits)
  then show "fst (enter_marks d r cc i f) \<longleftrightarrow>
      dle (Finite 0) i \<and> dle i (Finite 100) \<and> dle (Finite 0) f \<and> dle f (Finite 100) \<and>
      already_enrolled d r cc"
    unfolding gi gf by blast
next
  assume "\<not> fst (enter_marks d r cc i f)"
  then show "snd (enter_marks d r cc i f) = d"
    by (auto simp: enter_marks_def split: option.splits if_splits)
next
  let ?p = "\<lambda>g. Grade.roll_no g = r \<and> course_code g = cc"
  assume "fst (enter_marks d r cc i f)"
  then obtain k where k: "find_if ?p (all_grades d) = Some k"
    and rng: "\<not> (dless i (Finite 0) \<or> dless (Finite 100) i \<or>
                 dless f (Finite 0) \<or> dless (Finite 100) f)"
    by (auto simp: enter_marks_def split: option.splits if_splits)
  from find_if_first [OF k]
  have first: "k < length (all_grades d)" "?p (all_grades d ! k)"
    "\<forall>j<k. \<not> ?p (all_grades d ! j)"
    by auto
  have row: "(all_grades d ! k)\<lparr>internal_mark := i, final_mark := f\<rparr> =
      \<lparr>Grade.roll_no = r, course_code = cc, internal_mark = i, final_mark = f\<rparr>"
    using first(2) by (cases "all_grades d ! k") simp
  have "snd (enter_marks d r cc i f) =
      d\<lparr>all_grades := (all_grades d)
          [k := \<lparr>Grade.roll_no = r, course_code = cc,
                 internal_mark = i, final_mark = f\<rparr>]\<rparr>"
    using k rng row by (simp add: enter_marks_def)
  with first show "\<exists>k<length (all_grades d).
         Grade.roll_no (all_grades d ! k) = r \<and> course_code (all_grades d ! k) = cc \<and>
         (\<forall>j<k. \<not> (Grade.roll_no (all_grades d ! j) = r \<and>
                    course_code (all_grades d ! j) = cc)) \<and>
         snd (enter_marks d r cc i f) =
           d\<lparr>all_grades := (all_grades d)
               [k := \<lparr>Grade.roll_no = r, course_code = cc,
                      internal_mark = i, final_mark = f\<rparr>]\<rparr>"
    by blast
qed

text \<open>
  The witness of C3: marks 50 and 60 for the second seed enrolment are accepted and
  overwrite that row only; marks for a pair that is not enrolled are refused and the
  mirror stays as it was.
\<close>

theorem C3_witness:
  "fst (enter_marks seeded_data ''S001'' ''SCI101'' (Finite 50) (Finite 60)) \<and>
   snd (enter_marks seeded_data ''S001'' ''SCI101'' (Finite 50) (Finite 60)) =
     seeded_data\<lparr>all_grades := seed_grades
       [1 := \<lparr>Grade.roll_no = ''S001'', course_code = ''SCI101'',
              internal_mark = Finite 50, final_mark = Finite 60\<rparr>]\<rparr> \<and>
   \<not> fst (enter_marks seeded_data ''S999'' ''MTH101'' (Finite 50) (Finite 60)) \<and>
   snd (enter_marks seeded_data ''S999'' ''MTH101'' (Finite 50) (Finite 60)) = seeded_data"
  using C3_enter_marks_validates [of "Finite 50" "Finite 60" seeded_data "''S001''" "''SCI101''"]
    C3_enter_marks_validates [of "Finite 50" "Finite 60" seeded_data "''S999''" "''MTH101''"]
  by (simp add: enter_marks_def already_enrolled_def seed_defs)


section \<open>Mark bounds in the store\<close>

lemma db_enter_marks_in_range:
  assumes "list_all marks_in_range (grades db)"
    and "dle (Finite 0) im" "dle im (Finite 100)" "dle (Finite 0) fm" "dle fm (Finite 100)"
  shows "list_all marks_in_range (grades (snd (db_enter_marks db r cc im fm)))"
proof -
  from assms(2) assms(4) have "im \<noteq> NaN" "fm \<noteq> NaN"
    using dle_not_NaN by blast+
  with assms show ?thesis
    by (auto simp: db_enter_marks_def step_update_marks_def Let_def list_all_iff
        marks_in_range_def)
qed

text \<open>
  Counterexample to claim C4 as stated (for every pair of marks): the seeded store has all
  marks in range; the write step with the marks 150 and 200 for the enrolment of
  \<^verbatim>\<open>S001\<close> in \<^verbatim>\<open>MTH101\<close> stores them, because \<^verbatim>\<open>db_enter_marks\<close> checks no
  range; the mirror call then refuses them, so the step yields false with a store that
  holds a mark outside \<open>[0, 100]\<close>.
\<close>

theorem C4_counterexample:
  "list_all marks_in_range (grades seeded_db) \<and>
   main_enter_marks seeded_db seeded_data ''S001'' ''MTH101'' (Finite 150) (Finite 200) =
     (False,
      seeded_db\<lparr>grades :=
        \<lparr>Grade.roll_no = ''S001'', course_code = ''MTH101'', internal_mark = Finite 150,
         final_mark = Finite 200\<rparr> # tl seed_grades\<rparr>,
      seeded_data) \<and>
   \<not> list_all marks_in_range
       (grades (fst (snd (main_enter_marks seeded_db seeded_data
          ''S001'' ''MTH101'' (Finite 150) (Finite 200)))))"
  by (simp add: main_enter_marks_def and_then_def db_enter_marks_def step_update_marks_def
      Let_def enter_marks_def prepare_ok_def marks_in_range_def seed_defs)

text \<open>
  Claim C4, amended. When every enrolment of the store has its marks in \<open>[0, 100]\<close> and
  both entered marks lie in \<open>[0, 100]\<close> (what \<^verbatim>\<open>prompt_number_or_back(..., 0, 100)\<close>
  lets through in \<^verbatim>\<open>main\<close>), then after the write step every enrolment of the store
  has its marks in \<open>[0, 100]\<close>.
\<close>

theorem C4_marks_stay_in_range:
  assumes "list_all marks_in_range (grades db)"
    and "dle (Finite 0) im" "dle im (Finite 100)" "dle (Finite 0) fm" "dle fm (Finite 100)"
  shows "list_all marks_in_range
           (grades (fst (snd (main_enter_marks db data r cc im fm))))"
  unfolding main_enter_marks_def and_then_store
  using assms by (rule db_enter_marks_in_range)

text \<open>The witness of C4: the marks 90 and 95 on the seeded store.\<close>

theorem C4_witness:
  "list_all marks_in_range (grades seeded_db) \<and>
   dle (Finite 0) (Finite 90) \<and> dle (Finite 90) (Finite 100) \<and>
   dle (Finite 0) (Finite 95) \<and> dle (Finite 95) (Finite 100) \<and>
   grades (fst (snd (main_enter_marks seeded_db seeded_data ''S001'' ''MTH101''
       (Finite 90) (Finite 95)))) =
     \<lparr>Grade.roll_no = ''S001'', course_code = ''MTH101'', internal_mark = Finite 90,
      final_mark = Finite 95\<rparr> # tl seed_grades \<and>
   list_all marks_in_range
     (grades (fst (snd (main_enter_marks seeded_db seeded_data ''S001'' ''MTH101''
        (Finite 90) (Finite 95)))))"
proof -
  have h: "list_all marks_in_range (grades seeded_db)"
    by (simp add: marks_in_range_def seed_defs)
  have g: "grades (fst (snd (main_enter_marks seeded_db seeded_data
        ''S001'' ''MTH101'' (Finite 90) (Finite 95)))) =
     \<lparr>Grade.roll_no = ''S001'', course_code = ''MTH101'', internal_mark = Finite 90,
      final_mark = Finite 95\<rparr> # tl seed_grades"
    by (simp add: main_enter_marks_def and_then_def db_enter_marks_def
        step_update_marks_def Let_def enter_marks_def prepare_ok_def seed_defs)
  from h g C4_marks_stay_in_range [OF h, of "Finite 90" "Finite 95" seeded_data
      "''S001''" "''MTH101''"]
  show ?thesis by simp
qed


section \<open>Deletes and their cascade\<close>

text \<open>
  Claim C5. \<^verbatim>\<open>remove_student\<close> leaves the mirror with exactly the students whose roll
  is not \<open>x\<close> and exactly the grades whose roll is not \<open>x\<close>, in their old order, and the
  courses as they were; \<^verbatim>\<open>remove_course\<close> does the same for the course code. In the
  store a successful \<^verbatim>\<open>db_delete_student\<close> or \<^verbatim>\<open>db_delete_course\<close> leaves the same
  rows: the parent row and, by the cascade, exactly its grades rows are gone.
\<close>

theorem C5_delete_cascade_exact:
  "snd (remove_student d x) =
     d\<lparr>all_students := filter (\<lambda>s. Student.roll_no s \<noteq> x) (all_students d),
       all_grades := filter (\<lambda>g. Grade.roll_no g \<noteq> x) (all_grades d)\<rparr> \<and>
   snd (remove_course d cc) =
     d\<lparr>all_courses := filter (\<lambda>c. code c \<noteq> cc) (all_courses d),
       all_grades := filter (\<lambda>g. course_code g \<noteq> cc) (all_grades d)\<rparr> \<and>
   (fst (db_delete_student db x) \<longrightarrow>
      snd (db_delete_student db x) =
        db\<lparr>students := filter (\<lambda>s. Student.roll_no s \<noteq> x) (students db),
           grades := filter (\<lambda>g. Grade.roll_no g \<noteq> x) (grades db)\<rparr>) \<and>
   (fst (db_delete_course db cc) \<longrightarrow>
      snd (db_delete_course db cc) =
        db\<lparr>courses := filter (\<lambda>c. code c \<noteq> cc) (courses db),
           grades := filter (\<lambda>g. course_code g \<noteq> cc) (grades db)\<rparr>)"
proof (intro conjI impI)
  show "snd (remove_student d x) =
     d\<lparr>all_students := filter (\<lambda>s. Student.roll_no s \<noteq> x) (all_students d),
       all_grades := filter (\<lambda>g. Grade.roll_no g \<noteq> x) (all_grades d)\<rparr>"
    by (simp add: remove_student_def Let_def erase_remove_if_filter)
next
  show "snd (remove_course d cc) =
     d\<lparr>all_courses := filter (\<lambda>c. code c \<noteq> cc) (all_courses d),
       all_grades := filter (\<lambda>g. course_code g \<noteq> cc) (all_grades d)\<rparr>"
    by (simp add: remove_course_def Let_def erase_remove_if_filter)
next
  assume "fst (db_delete_student db x)"
  then show "snd (db_delete_student db x) =
        db\<lparr>students := filter (\<lambda>s. Student.roll_no s \<noteq> x) (students db),
           grades := filter (\<lambda>g. Grade.roll_no g \<noteq> x) (grades db)\<rparr>"
    by (auto simp: db_delete_student_def step_delete_student_def Let_def
        split: if_splits)
next
  assume "fst (db_delete_course db cc)"
  then show "snd (db_delete_course db cc) =
        db\<lparr>courses := filter (\<lambda>c. code c \<noteq> cc) (courses db),
           grades := filter (\<lambda>g. course_code g \<noteq> cc) (grades db)\<rparr>"
    by (auto simp: db_delete_course_def step_delete_course_def Let_def
        split: if_splits)
qed

text \<open>
  The witness of C5: deleting student \<^verbatim>\<open>S001\<close>, and deleting course \<^verbatim>\<open>MTH101\<close>, from
  the seeded store and from the seeded mirror.
\<close>

theorem C5_witness:
  "fst (db_delete_student seeded_db ''S001'') \<and>
   snd (db_delete_student seeded_db ''S001'') =
     seeded_db\<lparr>students := tl seed_students, grades := drop 2 seed_grades\<rparr> \<and>
   fst (db_delete_course seeded_db ''MTH101'') \<and>
   snd (db_delete_course seeded_db ''MTH101'') =
     seeded_db\<lparr>courses := tl seed_courses, grades := [seed_grades ! 1, seed_grades ! 2]\<rparr> \<and>
   snd (remove_student seeded_data ''S001'') =
     seeded_data\<lparr>all_students := tl seed_students, all_grades := drop 2 seed_grades\<rparr> \<and>
   snd (remove_course seeded_data ''MTH101'') =
     seeded_data\<lparr>all_courses := tl seed_courses,
       all_grades := [seed_grades ! 1, seed_grades ! 2]\<rparr>"
proof -
  have s: "fst (db_delete_student seeded_db ''S001'')"
    by (simp add: db_delete_student_def step_delete_student_def prepare_ok_def seed_defs)
  have c: "fst (db_delete_course seeded_db ''MTH101'')"
    by (simp add: db_delete_course_def step_delete_course_def prepare_ok_def seed_defs)
  show ?thesis
    using s c C5_delete_cascade_exact [of seeded_data "''S001''" "''MTH101''" seeded_db]
    by (simp add: seed_defs)
qed


section \<open>Unique identifiers\<close>

text \<open>
  Claim C6. When the mirror already has a student with the roll of \<open>s\<close>,
  \<^verbatim>\<open>add_student\<close> returns false and leaves the mirror unchanged, and likewise
  \<^verbatim>\<open>add_course\<close> for a course code; when the \<^verbatim>\<open>students\<close> table already has a row
  with that primary key, \<^verbatim>\<open>db_add_student\<close> returns false and leaves the store
  unchanged, and likewise \<^verbatim>\<open>db_add_course\<close>.
\<close>

theorem C6_duplicate_identifier_rejected:
  "(exists_student d (Student.roll_no s) \<longrightarrow> add_student d s = (False, d)) \<and>
   (exists_course d (code c) \<longrightarrow> add_course d c = (False, d)) \<and>
   (list_ex (\<lambda>x. Student.roll_no x = Student.roll_no s) (students db) \<longrightarrow>
      db_add_student db s = (False, db)) \<and>
   (list_ex (\<lambda>x. code x = code c) (courses db) \<longrightarrow>
      db_add_course db c = (False, db))"
proof (intro conjI impI)
  assume "exists_student d (Student.roll_no s)"
  then show "add_student d s = (False, d)"
    by (auto simp: add_student_def exists_student_find_if split: option.splits)
next
  assume "exists_course d (code c)"
  then show "add_course d c = (False, d)"
    by (auto simp: add_course_def exists_course_find_if split: option.splits)
next
  assume "list_ex (\<lambda>x. Student.roll_no x = Student.roll_no s) (students db)"
  then show "db_add_student db s = (False, db)"
    by (simp add: db_add_student_def step_insert_student_def)
next
  assume "list_ex (\<lambda>x. code x = code c) (courses db)"
  then show "db_add_course db c = (False, db)"
    by (simp add: db_add_course_def step_insert_course_def)
qed

text \<open>
  The witness of C6: a second student \<^verbatim>\<open>S001\<close> and a second course \<^verbatim>\<open>MTH101\<close>, with
  other fields than the seed rows, are refused by the mirror and by the store.
\<close>

theorem C6_witness:
  "exists_student seeded_data (Student.roll_no edited_student) \<and>
   add_student seeded_data edited_student = (False, seeded_data) \<and>
   exists_course seeded_data (code edited_course) \<and>
   add_course seeded_data edited_course = (False, seeded_data) \<and>
   list_ex (\<lambda>x. Student.roll_no x = Student.roll_no edited_student) (students seeded_db) \<and>
   db_add_student seeded_db edited_student = (False, seeded_db) \<and>
   list_ex (\<lambda>x. code x = code edited_course) (courses seeded_db) \<and>
   db_add_course seeded_db edited_course = (False, seeded_db)"
  using C6_duplicate_identifier_rejected [of seeded_data edited_student edited_course seeded_db]
  by (simp add: exists_student_def exists_course_def sample_defs seed_defs)


section \<open>Facts about rounding\<close>

lemma round_half_even_bounds:
  "\<lfloor>m\<rfloor> \<le> round_half_even m" "round_half_even m \<le> \<lceil>m\<rceil>"
proof -
  show "\<lfloor>m\<rfloor> \<le> round_half_even m"
    by (simp add: round_half_even_def Let_def)
  have "\<lfloor>m\<rfloor> + 1 \<le> \<lceil>m\<rceil>" if "m - real_of_int \<lfloor>m\<rfloor> \<ge> 1 / 2"
  proof -
    from that have "real_of_int \<lfloor>m\<rfloor> < m" by linarith
    then show ?thesis by linarith
  qed
  then show "round_half_even m \<le> \<lceil>m\<rceil>"
    by (auto simp: round_half_even_def Let_def not_less intro: order_trans [OF floor_le_ceiling])
qed

lemma round_half_even_error: "\<bar>real_of_int (round_half_even m) - m\<bar> \<le> 1 / 2"
proof -
  have "real_of_int \<lfloor>m\<rfloor> \<le> m" "m < real_of_int \<lfloor>m\<rfloor> + 1" by linarith+
  then show ?thesis
    by (auto simp: round_half_even_def Let_def abs_le_iff)
qed

lemma round_half_even_abs_le:
  assumes "\<bar>m\<bar> \<le> real_of_int n"
  shows "\<bar>real_of_int (round_half_even m)\<bar> \<le> real_of_int n"
proof -
  from assms have "- real_of_int n \<le> m" "m \<le> real_of_int n" by linarith+
  then have "- n \<le> \<lfloor>m\<rfloor>" "\<lceil>m\<rceil> \<le> n"
    by (simp_all add: le_floor_iff ceiling_le_iff)
  with round_half_even_bounds [of m] have "- n \<le> round_half_even m" "round_half_even m \<le> n"
    by linarith+
  then show ?thesis by linarith
qed

lemma ulp_binade:
  assumes "2 powr real_of_int k \<le> \<bar>x\<bar>" "\<bar>x\<bar> < 2 powr real_of_int (k + 1)" "- 1022 \<le> k"
  shows "ulp x = 2 powr real_of_int (k - 52)"
proof -
  have "0 < \<bar>x\<bar>" using assms(1) by (smt (verit) powr_gt_zero)
  then have "\<lfloor>log 2 \<bar>x\<bar>\<rfloor> = k"
    using assms(1,2) by (simp add: floor_log_eq_powr_iff)
  with assms(3) show ?thesis by (simp add: ulp_def max_def)
qed

text \<open>
  Rounding a real of a known binade \<open>[2\<^sup>k, 2\<^sup>k\<^sup>+\<^sup>1)\<close>, for an exponent of the normal
  range below the largest one: the result is finite.
\<close>

lemma round_double_binade:
  assumes lo: "2 powr real_of_int k \<le> \<bar>x\<bar>" and hi: "\<bar>x\<bar> < 2 powr real_of_int (k + 1)"
    and k: "- 1022 \<le> k" "k \<le> 1022"
    and z: "round_half_even (x / 2 powr real_of_int (k - 52)) = z"
  shows "round_double x = Finite (real_of_int z * 2 powr real_of_int (k - 52))"
proof -
  let ?u = "2 powr real_of_int (k - 52)"
  have u: "ulp x = ?u" using lo hi k(1) by (rule ulp_binade)
  have x0: "x \<noteq> 0" using lo by (smt (verit) powr_gt_zero)
  have "\<bar>x / ?u\<bar> = \<bar>x\<bar> / ?u" by simp
  also have "\<dots> \<le> 2 powr real_of_int (k + 1) / ?u"
    using hi by (intro divide_right_mono) auto
  also have "\<dots> = 2 powr 53"
    by (simp add: powr_diff [symmetric])
  also have "\<dots> = real_of_int (2 ^ 53)" by simp
  finally have "\<bar>real_of_int (round_half_even (x / ?u))\<bar> \<le> real_of_int (2 ^ 53)"
    by (rule round_half_even_abs_le)
  then have "\<bar>real_of_int z\<bar> \<le> 2 powr 53" using z by simp
  then have "\<bar>real_of_int z * ?u\<bar> \<le> 2 powr 53 * ?u"
    by (simp add: abs_mult mult_right_mono)
  also have "\<dots> = 2 powr (53 + real_of_int (k - 52))"
    by (simp only: powr_add)
  also have "53 + real_of_int (k - 52) = real_of_int (k + 1)"
    by simp
  also have "2 powr real_of_int (k + 1) \<le> 2 powr 1023"
    using k(2) by (intro powr_mono) auto
  also have "\<dots> < 2 ^ 1024" by simp
  finally have "\<bar>real_of_int z * ?u\<bar> < 2 ^ 1024" .
  then have "\<not> real_of_int z * ?u \<ge> 2 ^ 1024" "\<not> real_of_int z * ?u \<le> - (2 ^ 1024)"
    by linarith+
  then show ?thesis
    using x0 z by (simp add: round_double_def u Let_def)
qed

lemma round_double_evalI:
  assumes "2 powr real_of_int k \<le> \<bar>x\<bar>" and "\<bar>x\<bar> < 2 powr real_of_int (k + 1)"
    and "- 1022 \<le> k" and "k \<le> 1022"
    and "u = 2 powr real_of_int (k - 52)"
    and "round_half_even (x / u) = z"
    and "r = real_of_int z * u"
  shows "round_double x = Finite r"
  using round_double_binade [of k x z] assms by simp

lemma pw13: "(10::real) ^ 13 = 10000000000000"
  by simp

lemma pw9: "(10::real) ^ 9 = 1000000000"
  by simp

text \<open>
  Up to 200 in magnitude the doubles are at most \<open>2\<^sup>-\<^sup>4\<^sup>5\<close> apart, so rounding is off by
  at most \<open>2\<^sup>-\<^sup>4\<^sup>6\<close>, which is below \<open>10\<^sup>-\<^sup>1\<^sup>3\<close>.
\<close>

lemma round_double_near:
  assumes "\<bar>x\<bar> \<le> 200"
  obtains r where "round_double x = Finite r" and "\<bar>r - x\<bar> \<le> 1 / 10 ^ 13"
proof (cases "x = 0")
  case True
  then have "round_double x = Finite 0" "\<bar>0 - x\<bar> \<le> 1 / 10 ^ 13"
    by (simp_all add: round_double_def)
  then show ?thesis by (rule that)
next
  case False
  define r where "r = real_of_int (round_half_even (x / ulp x)) * ulp x"
  have pos: "0 < \<bar>x\<bar>" using False by simp
  have "\<bar>x\<bar> < 2 powr 8" using assms by simp
  then have "log 2 \<bar>x\<bar> < 8"
    using pos by (simp add: log_less_iff)
  then have "\<lfloor>log 2 \<bar>x\<bar>\<rfloor> \<le> 7" by (simp add: floor_le_iff)
  then have "real_of_int (max \<lfloor>log 2 \<bar>x\<bar>\<rfloor> (- 1022) - 52) \<le> - 45" by simp
  then have "ulp x \<le> 2 powr (- 45)"
    unfolding ulp_def by (intro powr_mono) auto
  then have u: "ulp x \<le> 1 / 2 ^ 45" by (simp add: powr_neg_numeral)
  have u0: "0 < ulp x" by (simp add: ulp_def)
  have "r - x = (real_of_int (round_half_even (x / ulp x)) - x / ulp x) * ulp x"
    using u0 by (simp add: r_def left_diff_distrib)
  then have "\<bar>r - x\<bar> = \<bar>real_of_int (round_half_even (x / ulp x)) - x / ulp x\<bar> * ulp x"
    using u0 by (simp add: abs_mult)
  also have "\<dots> \<le> (1 / 2) * (1 / 2 ^ 45)"
    using round_half_even_error [of "x / ulp x"] u u0 by (intro mult_mono) auto
  finally have e: "\<bar>r - x\<bar> \<le> 1 / 2 ^ 46" by simp
  also have "\<dots> \<le> 1 / 10 ^ 13" by simp
  finally have near: "\<bar>r - x\<bar> \<le> 1 / 10 ^ 13" .
  have "\<bar>r\<bar> \<le> 201" using near assms unfolding pw13 by linarith
  then have "\<not> r \<ge> 2 ^ 1024" "\<not> r \<le> - (2 ^ 1024)" by simp_all
  then have "round_double x = Finite r"
    using False by (simp add: round_double_def r_def Let_def)
  then show ?thesis using near by (rule that)
qed

text \<open>The roundings that the examples below go through.\<close>

lemma round_double_03: "round_double 0.3 = Finite (5404319552844595 / 2 ^ 54)"
  by (rule round_double_evalI [where k = "- 2" and u = "1 / 2 ^ 54" and z = 5404319552844595])
    (simp_all add: powr_neg_numeral round_half_even_def Let_def)

lemma round_double_07: "round_double 0.7 = Finite (3152519739159347 / 2 ^ 52)"
  by (rule round_double_evalI [where k = "- 1" and u = "1 / 2 ^ 53" and z = 6305039478318694])
    (simp_all add: powr_neg_numeral round_half_even_def Let_def)

lemma mul03_75_88: "round_double (5404319552844595 / 2 ^ 54 * 75) = Finite (45 / 2)"
  by (rule round_double_evalI [where k = 4 and u = "1 / 2 ^ 48" and z = 6333186975989760])
    (simp_all add: powr_neg_numeral round_half_even_def Let_def)

lemma mul07_75_88:
  "round_double (3152519739159347 / 2 ^ 52 * 88) =
     Finite (2167357320672051 / 2 ^ 45)"
  by (rule round_double_evalI [where k = 5 and u = "1 / 2 ^ 47" and z = 8669429282688204])
    (simp_all add: powr_neg_numeral round_half_even_def Let_def)

lemma sum_75_88:
  "round_double (45 / 2 + 2167357320672051 / 2 ^ 45) =
     Finite (2959005692670771 / 2 ^ 45)"
  by (rule round_double_evalI [where k = 6 and u = "1 / 2 ^ 46" and z = 5918011385341542])
    (simp_all add: powr_neg_numeral round_half_even_def Let_def)

lemma weighted_75_88:
  "weighted \<lparr>Grade.roll_no = r, course_code = cc, internal_mark = Finite 75,
              final_mark = Finite 88\<rparr> = Finite (2959005692670771 / 2 ^ 45)"
  by (simp only: weighted_def Grade.select_convs round_double_03 round_double_07
      dmul.simps dadd.simps mul03_75_88 mul07_75_88 sum_75_88)

lemma mul03_25_75: "round_double (5404319552844595 / 2 ^ 54 * 25) = Finite (15 / 2)"
  by (rule round_double_evalI [where k = 2 and u = "1 / 2 ^ 50" and z = 8444249301319680])
    (simp_all add: powr_neg_numeral round_half_even_def Let_def)

lemma mul07_25_75: "round_double (3152519739159347 / 2 ^ 52 * 75) = Finite (105 / 2)"
  by (rule round_double_evalI [where k = 5 and u = "1 / 2 ^ 47" and z = 7388718138654720])
    (simp_all add: powr_neg_numeral round_half_even_def Let_def)

lemma sum_25_75: "round_double (15 / 2 + 105 / 2) = Finite 60"
  by (rule round_double_evalI [where k = 5 and u = "1 / 2 ^ 47" and z = 8444249301319680])
    (simp_all add: powr_neg_numeral round_half_even_def Let_def)

lemma weighted_25_75:
  "weighted \<lparr>Grade.roll_no = r, course_code = cc, internal_mark = Finite 25,
              final_mark = Finite 75\<rparr> = Finite 60"
  by (simp only: weighted_def Grade.select_convs round_double_03 round_double_07
      dmul.simps dadd.simps mul03_25_75 mul07_25_75 sum_25_75)

lemma mul03_90_90: "round_double (5404319552844595 / 2 ^ 54 * 90) = Finite 27"
  by (rule round_double_evalI [where k = 4 and u = "1 / 2 ^ 48" and z = 7599824371187712])
    (simp_all add: powr_neg_numeral round_half_even_def Let_def)

lemma mul07_90_90:
  "round_double (3152519739159347 / 2 ^ 52 * 90) =
     Finite (8866461766385663 / 2 ^ 47)"
  by (rule round_double_evalI [where k = 5 and u = "1 / 2 ^ 47" and z = 8866461766385663])
    (simp_all add: powr_neg_numeral round_half_even_def Let_def)

lemma sum_90_90: "round_double (27 + 8866461766385663 / 2 ^ 47) = Finite 90"
  by (rule round_double_evalI [where k = 6 and u = "1 / 2 ^ 46" and z = 6333186975989760])
    (simp_all add: powr_neg_numeral round_half_even_def Let_def)

lemma weighted_90_90:
  "weighted \<lparr>Grade.roll_no = r, course_code = cc, internal_mark = Finite 90,
              final_mark = Finite 90\<rparr> = Finite 90"
  by (simp only: weighted_def Grade.select_convs round_double_03 round_double_07
      dmul.simps dadd.simps mul03_90_90 mul07_90_90 sum_90_90)

lemma mul03_1_71:
  "round_double (5404319552844595 / 2 ^ 54 * 1) =
     Finite (5404319552844595 / 2 ^ 54)"
  by (rule round_double_evalI [where k = "- 2" and u = "1 / 2 ^ 54" and z = 5404319552844595])
    (simp_all add: powr_neg_numeral round_half_even_def Let_def)

lemma mul07_1_71:
  "round_double (3152519739159347 / 2 ^ 52 * 71) =
     Finite (6994653171259801 / 2 ^ 47)"
  by (rule round_double_evalI [where k = 5 and u = "1 / 2 ^ 47" and z = 6994653171259801])
    (simp_all add: powr_neg_numeral round_half_even_def Let_def)

lemma sum_1_71:
  "round_double (5404319552844595 / 2 ^ 54 + 6994653171259801 / 2 ^ 47) =
     Finite (7036874417766399 / 2 ^ 47)"
  by (rule round_double_evalI [where k = 5 and u = "1 / 2 ^ 47" and z = 7036874417766399])
    (simp_all add: powr_neg_numeral round_half_even_def Let_def)

lemma weighted_1_71:
  "weighted \<lparr>Grade.roll_no = r, course_code = cc, internal_mark = Finite 1,
              final_mark = Finite 71\<rparr> = Finite (7036874417766399 / 2 ^ 47)"
  by (simp only: weighted_def Grade.select_convs round_double_03 round_double_07
      dmul.simps dadd.simps mul03_1_71 mul07_1_71 sum_1_71)

lemma mul03_43_53:
  "round_double (5404319552844595 / 2 ^ 54 * 43) =
     Finite (7262054399134925 / 2 ^ 49)"
  by (rule round_double_evalI [where k = 3 and u = "1 / 2 ^ 49" and z = 7262054399134925])
    (simp_all add: powr_neg_numeral round_half_even_def Let_def)

lemma mul07_43_53:
  "round_double (3152519739159347 / 2 ^ 52 * 53) =
     Finite (1305340204495667 / 2 ^ 45)"
  by (rule round_double_evalI [where k = 5 and u = "1 / 2 ^ 47" and z = 5221360817982668])
    (simp_all add: powr_neg_numeral round_half_even_def Let_def)

lemma sum_43_53:
  "round_double (7262054399134925 / 2 ^ 49 + 1305340204495667 / 2 ^ 45) =
     Finite (7036874417766399 / 2 ^ 47)"
  by (rule round_double_evalI [where k = 5 and u = "1 / 2 ^ 47" and z = 7036874417766399])
    (simp_all add: powr_neg_numeral round_half_even_def Let_def)

lemma weighted_43_53:
  "weighted \<lparr>Grade.roll_no = r, course_code = cc, internal_mark = Finite 43,
              final_mark = Finite 53\<rparr> = Finite (7036874417766399 / 2 ^ 47)"
  by (simp only: weighted_def Grade.select_convs round_double_03 round_double_07
      dmul.simps dadd.simps mul03_43_53 mul07_43_53 sum_43_53)

lemma mul03_12345678_87654321:
  "round_double (5404319552844595 / 2 ^ 54 * 12345678) =
     Finite (7953642488542003 / 2 ^ 31)"
  by (rule round_double_evalI [where k = 21 and u = "1 / 2 ^ 31" and z = 7953642488542003])
    (simp_all add: powr_neg_numeral round_half_even_def Let_def)

lemma mul07_12345678_87654321:
  "round_double (3152519739159347 / 2 ^ 52 * 87654321) =
     Finite (8235334669801881 / 2 ^ 27)"
  by (rule round_double_evalI [where k = 25 and u = "1 / 2 ^ 27" and z = 8235334669801881])
    (simp_all add: powr_neg_numeral round_half_even_def Let_def)

lemma sum_12345678_87654321:
  "round_double (7953642488542003 / 2 ^ 31 + 8235334669801881 / 2 ^ 27) =
     Finite (2183109331333939 / 2 ^ 25)"
  by (rule round_double_evalI [where k = 25 and u = "1 / 2 ^ 27" and z = 8732437325335756])
    (simp_all add: powr_neg_numeral round_half_even_def Let_def)

lemma weighted_12345678_87654321:
  "weighted \<lparr>Grade.roll_no = r, course_code = cc, internal_mark = Finite 12345678,
              final_mark = Finite 87654321\<rparr> = Finite (2183109331333939 / 2 ^ 25)"
  by (simp only: weighted_def Grade.select_convs round_double_03 round_double_07
      dmul.simps dadd.simps mul03_12345678_87654321 mul07_12345678_87654321 sum_12345678_87654321)

lemma round_double_841: "round_double 84.1 = Finite (2959005692670771 / 2 ^ 45)"
  by (rule round_double_evalI [where k = 6 and u = "1 / 2 ^ 46" and z = 5918011385341542])
    (simp_all add: powr_neg_numeral round_half_even_def Let_def)

lemma total_borderline_1:
  "round_double (0 + 7036874417766399 / 2 ^ 47) =
     Finite (7036874417766399 / 2 ^ 47)"
  by (rule round_double_evalI [where k = 5 and u = "1 / 2 ^ 47" and z = 7036874417766399])
    (simp_all add: powr_neg_numeral round_half_even_def Let_def)

lemma total_borderline_2:
  "round_double (7036874417766399 / 2 ^ 47 + 7036874417766399 / 2 ^ 47) =
     Finite (7036874417766399 / 2 ^ 46)"
  by (rule round_double_evalI [where k = 6 and u = "1 / 2 ^ 46" and z = 7036874417766399])
    (simp_all add: powr_neg_numeral round_half_even_def Let_def)

lemma average_borderline:
  "round_double (7036874417766399 / 2 ^ 46 / real 2) =
     Finite (7036874417766399 / 2 ^ 47)"
  by (rule round_double_evalI [where k = 5 and u = "1 / 2 ^ 47" and z = 7036874417766399])
    (simp_all add: powr_neg_numeral round_half_even_def Let_def)

lemma round_double_60: "round_double 60 = Finite 60"
  by (rule round_double_evalI [where k = 5 and u = "1 / 2 ^ 47" and z = 8444249301319680])
    (simp_all add: powr_neg_numeral round_half_even_def Let_def)

lemma round_double_75: "round_double 75 = Finite 75"
  by (rule round_double_evalI [where k = 6 and u = "1 / 2 ^ 46" and z = 5277655813324800])
    (simp_all add: powr_neg_numeral round_half_even_def Let_def)

lemma round_double_150: "round_double 150 = Finite 150"
  by (rule round_double_evalI [where k = 7 and u = "1 / 2 ^ 45" and z = 5277655813324800])
    (simp_all add: powr_neg_numeral round_half_even_def Let_def)


section \<open>The weighted grade\<close>

lemma in_range_Finite:
  assumes "dle (Finite 0) m" and "dle m (Finite 100)"
  obtains x where "m = Finite x" and "0 \<le> x" and "x \<le> 100"
  using assms by (cases m) auto

text \<open>A rounded literal times a mark, rounded again.\<close>

lemma rounded_product:
  assumes c: "0 < c" "c \<le> 1" and m: "0 \<le> m" "m \<le> 100"
  obtains p where "dmul (round_double c) (Finite m) = Finite p"
    and "\<bar>p - c * m\<bar> \<le> 101 / 10 ^ 13"
proof -
  have "\<bar>c\<bar> \<le> 200" using c by simp
  then obtain a where a: "round_double c = Finite a" "\<bar>a - c\<bar> \<le> 1 / 10 ^ 13"
    by (rule round_double_near)
  have "\<bar>a * m - c * m\<bar> = \<bar>a - c\<bar> * m"
    using m by (simp add: abs_mult left_diff_distrib [symmetric])
  also have "\<dots> \<le> (1 / 10 ^ 13) * 100"
    using a(2) m by (intro mult_mono) auto
  finally have b: "\<bar>a * m - c * m\<bar> \<le> 100 / 10 ^ 13" by simp
  have "c * m \<le> 1 * 100" using c m by (intro mult_mono) auto
  moreover have "0 \<le> c * m" using c m by simp
  ultimately have "\<bar>a * m\<bar> \<le> 200" using b unfolding pw13 by linarith
  then obtain p where p: "round_double (a * m) = Finite p" "\<bar>p - a * m\<bar> \<le> 1 / 10 ^ 13"
    by (rule round_double_near)
  have "dmul (round_double c) (Finite m) = Finite p"
    using a(1) p(1) by simp
  moreover have "\<bar>p - c * m\<bar> \<le> 101 / 10 ^ 13"
    using p(2) b unfolding pw13 by linarith
  ultimately show ?thesis by (rule that)
qed

lemma weighted_near:
  assumes g: "internal_mark g = Finite i" "final_mark g = Finite f"
    and r: "0 \<le> i" "i \<le> 100" "0 \<le> f" "f \<le> 100"
  obtains w where "weighted g = Finite w" and "\<bar>w - (0.3 * i + 0.7 * f)\<bar> \<le> 1 / 10 ^ 9"
proof -
  obtain p where p: "dmul (round_double 0.3) (Finite i) = Finite p"
      "\<bar>p - 0.3 * i\<bar> \<le> 101 / 10 ^ 13"
    using rounded_product [of "0.3" i] r by auto
  obtain q where q: "dmul (round_double 0.7) (Finite f) = Finite q"
      "\<bar>q - 0.7 * f\<bar> \<le> 101 / 10 ^ 13"
    using rounded_product [of "0.7" f] r by auto
  have "\<bar>p + q\<bar> \<le> 200" using p(2) q(2) r unfolding pw13 by linarith
  then obtain w where w: "round_double (p + q) = Finite w" "\<bar>w - (p + q)\<bar> \<le> 1 / 10 ^ 13"
    by (rule round_double_near)
  have "weighted g = Finite w"
    using p(1) q(1) w(1) by (simp add: weighted_def g)
  moreover have "\<bar>w - (0.3 * i + 0.7 * f)\<bar> \<le> 1 / 10 ^ 9"
    using p(2) q(2) w(2) unfolding pw13 pw9 by linarith
  ultimately show ?thesis by (rule that)
qed

text \<open>
  Counterexample to claim C7 as stated. For the marks 75 and 88 \<^verbatim>\<open>weighted()\<close>
  returns the double \<open>2959005692670771 / 2\<^sup>4\<^sup>5\<close>, which is 84.1 to fifteen digits and
  not within \<open>1 / 10 ^ 9\<close> of 82.1. And the tolerance does not hold for every grade: for
  the marks 12345678 and 87654321 the result is \<open>2183109331333939 / 2\<^sup>2\<^sup>5\<close>, more than
  \<open>1 / 10 ^ 9\<close> away from \<open>0.3 * 12345678 + 0.7 * 87654321\<close>.
\<close>

theorem C7_counterexample:
  "weighted \<lparr>Grade.roll_no = ''S001'', course_code = ''MTH101'',
              internal_mark = Finite 75, final_mark = Finite 88\<rparr> =
     Finite (2959005692670771 / 2 ^ 45) \<and>
   \<not> \<bar>2959005692670771 / 2 ^ 45 - 82.1\<bar> \<le> (1 / 10 ^ 9 :: real) \<and>
   weighted \<lparr>Grade.roll_no = ''S001'', course_code = ''MTH101'',
              internal_mark = Finite 12345678, final_mark = Finite 87654321\<rparr> =
     Finite (2183109331333939 / 2 ^ 25) \<and>
   \<not> \<bar>2183109331333939 / 2 ^ 25 - (0.3 * 12345678 + 0.7 * 87654321)\<bar>
       \<le> (1 / 10 ^ 9 :: real)"
proof (intro conjI)
  show "weighted \<lparr>Grade.roll_no = ''S001'', course_code = ''MTH101'',
              internal_mark = Finite 75, final_mark = Finite 88\<rparr> =
     Finite (2959005692670771 / 2 ^ 45)"
    by (rule weighted_75_88)
  show "\<not> \<bar>2959005692670771 / 2 ^ 45 - 82.1\<bar> \<le> (1 / 10 ^ 9 :: real)"
    by simp
  show "weighted \<lparr>Grade.roll_no = ''S001'', course_code = ''MTH101'',
              internal_mark = Finite 12345678, final_mark = Finite 87654321\<rparr> =
     Finite (2183109331333939 / 2 ^ 25)"
    by (rule weighted_12345678_87654321)
  show "\<not> \<bar>2183109331333939 / 2 ^ 25 - (0.3 * 12345678 + 0.7 * 87654321)\<bar>
       \<le> (1 / 10 ^ 9 :: real)"
    by simp
qed

text \<open>
  Claim C7, amended. For every grade whose marks \<open>i\<close> and \<open>f\<close> lie in \<open>[0, 100]\<close>,
  \<^verbatim>\<open>weighted()\<close> returns a finite double within \<open>1 / 10 ^ 9\<close> of
  \<open>0.3 * i + 0.7 * f\<close>. For \<open>i = 75\<close> and \<open>f = 88\<close> it returns 84.1: the very double
  that the literal \<^verbatim>\<open>84.1\<close> denotes.
\<close>

theorem C7_weighted_formula:
  "(marks_in_range g \<longrightarrow>
      (\<exists>i f w. internal_mark g = Finite i \<and> final_mark g = Finite f \<and>
         weighted g = Finite w \<and> \<bar>w - (0.3 * i + 0.7 * f)\<bar> \<le> 1 / 10 ^ 9)) \<and>
   weighted \<lparr>Grade.roll_no = r, course_code = cc, internal_mark = Finite 75,
              final_mark = Finite 88\<rparr> = round_double 84.1"
proof (intro conjI impI)
  assume "marks_in_range g"
  then have m: "dle (Finite 0) (internal_mark g)" "dle (internal_mark g) (Finite 100)"
    "dle (Finite 0) (final_mark g)" "dle (final_mark g) (Finite 100)"
    by (simp_all add: marks_in_range_def)
  from m(1) m(2) obtain i where i: "internal_mark g = Finite i" "0 \<le> i" "i \<le> 100"
    by (rule in_range_Finite)
  from m(3) m(4) obtain f where f: "final_mark g = Finite f" "0 \<le> f" "f \<le> 100"
    by (rule in_range_Finite)
  from i(1) f(1) i(2) i(3) f(2) f(3) obtain w
    where "weighted g = Finite w" "\<bar>w - (0.3 * i + 0.7 * f)\<bar> \<le> 1 / 10 ^ 9"
    by (rule weighted_near)
  with i(1) f(1)
  show "\<exists>i f w. internal_mark g = Finite i \<and> final_mark g = Finite f \<and>
         weighted g = Finite w \<and> \<bar>w - (0.3 * i + 0.7 * f)\<bar> \<le> 1 / 10 ^ 9"
    by blast
next
  show "weighted \<lparr>Grade.roll_no = r, course_code = cc, internal_mark = Finite 75,
              final_mark = Finite 88\<rparr> = round_double 84.1"
    by (simp only: weighted_75_88 round_double_841)
qed

text \<open>
  The witness of C7: the marks 25 and 75 are in range and give exactly 60; the marks 1 and
  71 are in range and give the double just below 50, which is within the tolerance.
\<close>

theorem C7_witness:
  "marks_in_range \<lparr>Grade.roll_no = ''S001'', course_code = ''MTH101'',
                    internal_mark = Finite 25, final_mark = Finite 75\<rparr> \<and>
   weighted \<lparr>Grade.roll_no = ''S001'', course_code = ''MTH101'',
              internal_mark = Finite 25, final_mark = Finite 75\<rparr> = Finite 60 \<and>
   \<bar>60 - (0.3 * 25 + 0.7 * 75)\<bar> \<le> (1 / 10 ^ 9 :: real) \<and>
   marks_in_range \<lparr>Grade.roll_no = ''S002'', course_code = ''MTH101'',
                    internal_mark = Finite 1, final_mark = Finite 71\<rparr> \<and>
   weighted \<lparr>Grade.roll_no = ''S002'', course_code = ''MTH101'',
              internal_mark = Finite 1, final_mark = Finite 71\<rparr> =
     Finite (7036874417766399 / 2 ^ 47) \<and>
   \<bar>7036874417766399 / 2 ^ 47 - (0.3 * 1 + 0.7 * 71)\<bar> \<le> (1 / 10 ^ 9 :: real)"
proof -
  let ?g = "\<lparr>Grade.roll_no = ''S001'', course_code = ''MTH101'',
             internal_mark = Finite 25, final_mark = Finite 75\<rparr>"
  let ?h = "\<lparr>Grade.roll_no = ''S002'', course_code = ''MTH101'',
             internal_mark = Finite 1, final_mark = Finite 71\<rparr>"
  have rg: "marks_in_range ?g" and rh: "marks_in_range ?h"
    by (simp_all add: marks_in_range_def)
  have wg: "weighted ?g = Finite 60" by (simp only: weighted_25_75)
  have wh: "weighted ?h = Finite (7036874417766399 / 2 ^ 47)" by (simp only: weighted_1_71)
  from C7_weighted_formula [of ?g] rg wg
  have "\<bar>60 - (0.3 * 25 + 0.7 * 75)\<bar> \<le> (1 / 10 ^ 9 :: real)"
    by auto
  moreover from C7_weighted_formula [of ?h] rh wh
  have "\<bar>7036874417766399 / 2 ^ 47 - (0.3 * 1 + 0.7 * 71)\<bar> \<le> (1 / 10 ^ 9 :: real)"
    by auto
  ultimately show ?thesis using rg rh wg wh by blast
qed


section \<open>Schema creation and seeding\<close>

lemma exec_sql_insert_students_empty:
  "prepare_ok db \<Longrightarrow> students db = [] \<Longrightarrow>
     exec_sql_insert_students db seed_students = (True, db\<lparr>students := seed_students\<rparr>)"
  by (simp add: exec_sql_insert_students_def step_insert_student_def seed_students_def)

lemma exec_sql_insert_courses_empty:
  "prepare_ok db \<Longrightarrow> courses db = [] \<Longrightarrow>
     exec_sql_insert_courses db seed_courses = (True, db\<lparr>courses := seed_courses\<rparr>)"
  by (simp add: exec_sql_insert_courses_def step_insert_course_def seed_courses_def)

lemma insert_grades_done:
  "insert_grades db rows = (SQLITE_DONE, db') \<Longrightarrow> db' = db\<lparr>grades := grades db @ rows\<rparr>"
proof (induction rows arbitrary: db)
  case Nil
  then show ?case by simp
next
  case (Cons g rows)
  from Cons.prems
  have rest: "insert_grades (db\<lparr>grades := grades db @ [g]\<rparr>) rows = (SQLITE_DONE, db')"
    by (auto simp: step_insert_grade_def split: if_splits)
  from Cons.IH [OF rest] show ?case by simp
qed

lemma exec_sql_insert_grades_cases:
  "exec_sql_insert_grades db rows = (False, db) \<or>
   exec_sql_insert_grades db rows = (True, db\<lparr>grades := grades db @ rows\<rparr>)"
proof (cases "insert_grades db rows")
  case (Pair rc db')
  then show ?thesis
    by (cases rc) (auto simp: exec_sql_insert_grades_def dest: insert_grades_done)
qed

lemma exec_sql_insert_grades_empty:
  "prepare_ok db \<Longrightarrow> grades db = [] \<Longrightarrow> list_all (fk_ok db) seed_grades \<Longrightarrow>
     exec_sql_insert_grades db seed_grades = (True, db\<lparr>grades := seed_grades\<rparr>)"
  by (simp add: exec_sql_insert_grades_def step_insert_grade_def fk_ok_def seed_grades_def)

lemma fk_ok_cong:
  "students db' = students db \<Longrightarrow> courses db' = courses db \<Longrightarrow> fk_ok db' = fk_ok db"
  by (rule ext) (simp add: fk_ok_def)

lemma seeds_nonempty: "seed_students \<noteq> []" "seed_courses \<noteq> []" "seed_grades \<noteq> []"
  by (simp_all add: seed_students_def seed_courses_def seed_grades_def)

lemma db_init_and_seed_no_io: "\<not> io_ok db \<Longrightarrow> db_init_and_seed db = (False, db)"
  by (simp add: db_init_and_seed_def exec_sql_ddl_def)

text \<open>
  With a working engine the call reaches the grades step with a store \<open>db3\<close> in which the
  tables exist and the students and the courses are the old rows, or the seed rows where
  there were none.
\<close>

lemma db_init_and_seed_cases:
  assumes "io_ok db"
  obtains db3 where "io_ok db3" and "has_tables db3"
    and "students db3 =
          (if has_tables db \<and> students db \<noteq> [] then students db else seed_students)"
    and "courses db3 =
          (if has_tables db \<and> courses db \<noteq> [] then courses db else seed_courses)"
    and "grades db3 = (if has_tables db then grades db else [])"
    and "db_init_and_seed db =
          (if grades db3 = [] then exec_sql_insert_grades db3 seed_grades else (True, db3))"
proof -
  define db1 where "db1 = (if has_tables db then db
                else db\<lparr>has_tables := True, students := [], courses := [], grades := []\<rparr>)"
  define db2 where "db2 = (if students db1 = [] then db1\<lparr>students := seed_students\<rparr> else db1)"
  define db3 where "db3 = (if courses db2 = [] then db2\<lparr>courses := seed_courses\<rparr> else db2)"
  have ddl: "exec_sql_ddl db = (True, db1)"
    using assms by (simp add: exec_sql_ddl_def db1_def)
  have p1: "prepare_ok db1" using assms by (simp add: prepare_ok_def db1_def)
  have p2: "prepare_ok db2" using p1 by (simp add: prepare_ok_def db2_def)
  have p3: "prepare_ok db3" using p2 by (simp add: prepare_ok_def db3_def)
  have s: "(if table_empty db1 (students db1)
            then exec_sql_insert_students db1 seed_students else (True, db1)) = (True, db2)"
    using p1 by (simp add: table_empty_def db2_def exec_sql_insert_students_empty)
  have c: "(if table_empty db2 (courses db2)
            then exec_sql_insert_courses db2 seed_courses else (True, db2)) = (True, db3)"
    using p2 by (simp add: table_empty_def db3_def exec_sql_insert_courses_empty)
  have "db_init_and_seed db =
      (case (if table_empty db3 (grades db3)
             then exec_sql_insert_grades db3 seed_grades else (True, db3)) of
         (False, db4) \<Rightarrow> (False, db4)
       | (True, db4) \<Rightarrow> (True, db4))"
    unfolding db_init_and_seed_def by (simp only: ddl s c prod.case bool.case)
  also have "\<dots> =
      (if grades db3 = [] then exec_sql_insert_grades db3 seed_grades else (True, db3))"
    using p3 exec_sql_insert_grades_cases [of db3 seed_grades]
    by (auto simp: table_empty_def)
  finally have g: "db_init_and_seed db =
      (if grades db3 = [] then exec_sql_insert_grades db3 seed_grades else (True, db3))" .
  have "io_ok db3" and "has_tables db3"
    and "students db3 =
          (if has_tables db \<and> students db \<noteq> [] then students db else seed_students)"
    and "courses db3 =
          (if has_tables db \<and> courses db \<noteq> [] then courses db else seed_courses)"
    and "grades db3 = (if has_tables db then grades db else [])"
    using assms by (auto simp: db1_def db2_def db3_def)
  with g show ?thesis by (rule that [rotated -1])
qed

lemma db_init_and_seed_tables:
  assumes "io_ok db"
  shows "io_ok (snd (db_init_and_seed db))"
    and "has_tables (snd (db_init_and_seed db))"
    and "students (snd (db_init_and_seed db)) =
          (if has_tables db \<and> students db \<noteq> [] then students db else seed_students)"
    and "courses (snd (db_init_and_seed db)) =
          (if has_tables db \<and> courses db \<noteq> [] then courses db else seed_courses)"
    and "grades (snd (db_init_and_seed db)) =
          (if has_tables db \<and> grades db \<noteq> [] then grades db
           else if fst (db_init_and_seed db) then seed_grades else [])"
proof -
  from assms obtain db3 where t3: "io_ok db3" "has_tables db3"
    "students db3 = (if has_tables db \<and> students db \<noteq> [] then students db else seed_students)"
    "courses db3 = (if has_tables db \<and> courses db \<noteq> [] then courses db else seed_courses)"
    "grades db3 = (if has_tables db then grades db else [])"
    and eq: "db_init_and_seed db =
      (if grades db3 = [] then exec_sql_insert_grades db3 seed_grades else (True, db3))"
    by (rule db_init_and_seed_cases)
  consider (kept) "grades db3 \<noteq> []" "db_init_and_seed db = (True, db3)"
    | (failed) "grades db3 = []" "db_init_and_seed db = (False, db3)"
    | (seeded) "grades db3 = []" "db_init_and_seed db = (True, db3\<lparr>grades := seed_grades\<rparr>)"
    using eq exec_sql_insert_grades_cases [of db3 seed_grades]
    by (cases "grades db3 = []") auto
  then have all: "io_ok (snd (db_init_and_seed db)) \<and>
      has_tables (snd (db_init_and_seed db)) \<and>
      students (snd (db_init_and_seed db)) =
          (if has_tables db \<and> students db \<noteq> [] then students db else seed_students) \<and>
      courses (snd (db_init_and_seed db)) =
          (if has_tables db \<and> courses db \<noteq> [] then courses db else seed_courses) \<and>
      grades (snd (db_init_and_seed db)) =
          (if has_tables db \<and> grades db \<noteq> [] then grades db
           else if fst (db_init_and_seed db) then seed_grades else [])"
  proof cases
    case kept
    with t3 show ?thesis by (auto split: if_splits)
  next
    case failed
    with t3 show ?thesis by (auto split: if_splits)
  next
    case seeded
    with t3 show ?thesis by (auto split: if_splits)
  qed
  from all show "io_ok (snd (db_init_and_seed db))" by simp
  from all show "has_tables (snd (db_init_and_seed db))" by simp
  from all show "students (snd (db_init_and_seed db)) =
          (if has_tables db \<and> students db \<noteq> [] then students db else seed_students)" by simp
  from all show "courses (snd (db_init_and_seed db)) =
          (if has_tables db \<and> courses db \<noteq> [] then courses db else seed_courses)" by simp
  from all show "grades (snd (db_init_and_seed db)) =
          (if has_tables db \<and> grades db \<noteq> [] then grades db
           else if fst (db_init_and_seed db) then seed_grades else [])" by simp
qed

lemma db_init_and_seed_populated:
  assumes "io_ok db" "has_tables db" "students db \<noteq> []" "courses db \<noteq> []" "grades db \<noteq> []"
  shows "db_init_and_seed db = (True, db)"
  using assms
  by (simp add: db_init_and_seed_def exec_sql_ddl_def table_empty_def prepare_ok_def)

lemma db_init_and_seed_seeds_grades:
  assumes io: "io_ok db" and empty: "has_tables db \<longrightarrow> grades db = []"
    and fk: "list_all (fk_ok (snd (db_init_and_seed db))) seed_grades"
  shows "fst (db_init_and_seed db) \<and> grades (snd (db_init_and_seed db)) = seed_grades"
proof -
  from io obtain db3 where t3: "io_ok db3" "has_tables db3"
    "grades db3 = (if has_tables db then grades db else [])"
    and eq3: "db_init_and_seed db =
      (if grades db3 = [] then exec_sql_insert_grades db3 seed_grades else (True, db3))"
    by (rule db_init_and_seed_cases)
  have g3: "grades db3 = []" using empty t3(3) by auto
  have p3: "prepare_ok db3" using t3 by (simp add: prepare_ok_def)
  have eq: "db_init_and_seed db = exec_sql_insert_grades db3 seed_grades"
    using eq3 g3 by simp
  have "students (snd (db_init_and_seed db)) = students db3"
    and "courses (snd (db_init_and_seed db)) = courses db3"
    using exec_sql_insert_grades_cases [of db3 seed_grades] unfolding eq by auto
  then have "fk_ok (snd (db_init_and_seed db)) = fk_ok db3" by (rule fk_ok_cong)
  with fk have "list_all (fk_ok db3) seed_grades" by simp
  from exec_sql_insert_grades_empty [OF p3 g3 this] show ?thesis
    unfolding eq by simp
qed

text \<open>
  What a call of \<^verbatim>\<open>db_init_and_seed\<close> does in general. A call that returned true is
  idempotent: a second call on the resulting store returns true and leaves it unchanged.
  A call never changes a table that exists and is non-empty. With a working engine a
  \<^verbatim>\<open>students\<close> table that is missing or empty holds the three seed students after
  the call, and a \<^verbatim>\<open>courses\<close> table that is missing or empty holds the three seed
  courses, whatever the other tables hold. A \<^verbatim>\<open>grades\<close> table that is missing or
  empty holds the four seed enrolments after the call, and the call returns true, when the
  students and courses then in the store include the ones the seed enrolments refer to.
\<close>

lemma db_init_and_seed_facts:
  "(fst (db_init_and_seed db) \<longrightarrow>
      db_init_and_seed (snd (db_init_and_seed db)) = (True, snd (db_init_and_seed db))) \<and>
   (has_tables db \<and> students db \<noteq> [] \<longrightarrow>
      students (snd (db_init_and_seed db)) = students db) \<and>
   (has_tables db \<and> courses db \<noteq> [] \<longrightarrow>
      courses (snd (db_init_and_seed db)) = courses db) \<and>
   (has_tables db \<and> grades db \<noteq> [] \<longrightarrow>
      grades (snd (db_init_and_seed db)) = grades db) \<and>
   (io_ok db \<and> (has_tables db \<longrightarrow> students db = []) \<longrightarrow>
      students (snd (db_init_and_seed db)) = seed_students) \<and>
   (io_ok db \<and> (has_tables db \<longrightarrow> courses db = []) \<longrightarrow>
      courses (snd (db_init_and_seed db)) = seed_courses) \<and>
   (io_ok db \<and> (has_tables db \<longrightarrow> grades db = []) \<and>
    list_all (fk_ok (snd (db_init_and_seed db))) seed_grades \<longrightarrow>
      fst (db_init_and_seed db) \<and> grades (snd (db_init_and_seed db)) = seed_grades)"
proof (intro conjI impI)
  assume ok: "fst (db_init_and_seed db)"
  then have io: "io_ok db"
    using db_init_and_seed_no_io [of db] by (cases "io_ok db") auto
  note t = db_init_and_seed_tables [OF io]
  have "students (snd (db_init_and_seed db)) \<noteq> []"
    "courses (snd (db_init_and_seed db)) \<noteq> []"
    "grades (snd (db_init_and_seed db)) \<noteq> []"
    using ok seeds_nonempty by (auto simp: t(3) t(4) t(5))
  with t(1) t(2)
  show "db_init_and_seed (snd (db_init_and_seed db)) = (True, snd (db_init_and_seed db))"
    by (rule db_init_and_seed_populated)
next
  assume a: "has_tables db \<and> students db \<noteq> []"
  show "students (snd (db_init_and_seed db)) = students db"
  proof (cases "io_ok db")
    case True
    from db_init_and_seed_tables(3) [OF True] a show ?thesis by simp
  next
    case False
    then show ?thesis by (simp add: db_init_and_seed_no_io)
  qed
next
  assume a: "has_tables db \<and> courses db \<noteq> []"
  show "courses (snd (db_init_and_seed db)) = courses db"
  proof (cases "io_ok db")
    case True
    from db_init_and_seed_tables(4) [OF True] a show ?thesis by simp
  next
    case False
    then show ?thesis by (simp add: db_init_and_seed_no_io)
  qed
next
  assume a: "has_tables db \<and> grades db \<noteq> []"
  show "grades (snd (db_init_and_seed db)) = grades db"
  proof (cases "io_ok db")
    case True
    from db_init_and_seed_tables(5) [OF True] a show ?thesis by simp
  next
    case False
    then show ?thesis by (simp add: db_init_and_seed_no_io)
  qed
next
  assume a: "io_ok db \<and> (has_tables db \<longrightarrow> students db = [])"
  then have "io_ok db" by simp
  from db_init_and_seed_tables(3) [OF this] a
  show "students (snd (db_init_and_seed db)) = seed_students" by auto
next
  assume a: "io_ok db \<and> (has_tables db \<longrightarrow> courses db = [])"
  then have "io_ok db" by simp
  from db_init_and_seed_tables(4) [OF this] a
  show "courses (snd (db_init_and_seed db)) = seed_courses" by auto
next
  assume a: "io_ok db \<and> (has_tables db \<longrightarrow> grades db = []) \<and>
    list_all (fk_ok (snd (db_init_and_seed db))) seed_grades"
  then have g: "fst (db_init_and_seed db) \<and> grades (snd (db_init_and_seed db)) = seed_grades"
    by (intro db_init_and_seed_seeds_grades) auto
  from g show "fst (db_init_and_seed db)" by simp
  from g show "grades (snd (db_init_and_seed db)) = seed_grades" by simp
qed

text \<open>
  Claim C8 fails on a store that the program itself reaches. Start from the seeded store
  and mirror. Menu action 10 deletes student \<^verbatim>\<open>S001\<close>, and the cascade deletes the
  two enrolments of that student; menu action 12 deletes the enrolment of \<^verbatim>\<open>S002\<close> in
  \<^verbatim>\<open>ENG101\<close>, and once more that of \<^verbatim>\<open>S003\<close> in \<^verbatim>\<open>MTH101\<close>. Each step returns
  true, and the store and the mirror hold the same rows. Now the \<^verbatim>\<open>grades\<close> table is
  empty while the other two tables are not. At the next start \<^verbatim>\<open>db_init_and_seed\<close>
  finds the \<^verbatim>\<open>grades\<close> table empty and inserts the seed enrolments; two of them refer to
  \<^verbatim>\<open>S001\<close>, the foreign key refuses the statement, and the call returns false with
  the \<^verbatim>\<open>grades\<close> table still empty. The empty table is not seeded, and \<^verbatim>\<open>main\<close>
  stops with "Could not initialize database.".
\<close>

theorem C8_startup_fails_after_deletes:
  "main_delete_student seeded_db seeded_data ''S001'' =
     (True, seeded_db\<lparr>students := tl seed_students, grades := drop 2 seed_grades\<rparr>,
      seeded_data\<lparr>all_students := tl seed_students, all_grades := drop 2 seed_grades\<rparr>) \<and>
   main_delete_enrollment
       (seeded_db\<lparr>students := tl seed_students, grades := drop 2 seed_grades\<rparr>)
       (seeded_data\<lparr>all_students := tl seed_students, all_grades := drop 2 seed_grades\<rparr>)
       ''S002'' ''ENG101'' =
     (True, seeded_db\<lparr>students := tl seed_students, grades := drop 3 seed_grades\<rparr>,
      seeded_data\<lparr>all_students := tl seed_students, all_grades := drop 3 seed_grades\<rparr>) \<and>
   main_delete_enrollment
       (seeded_db\<lparr>students := tl seed_students, grades := drop 3 seed_grades\<rparr>)
       (seeded_data\<lparr>all_students := tl seed_students, all_grades := drop 3 seed_grades\<rparr>)
       ''S003'' ''MTH101'' =
     (True, seeded_db\<lparr>students := tl seed_students, grades := []\<rparr>,
      seeded_data\<lparr>all_students := tl seed_students, all_grades := []\<rparr>) \<and>
   io_ok (seeded_db\<lparr>students := tl seed_students, grades := []\<rparr>) \<and>
   has_tables (seeded_db\<lparr>students := tl seed_students, grades := []\<rparr>) \<and>
   map Student.roll_no (students (seeded_db\<lparr>students := tl seed_students, grades := []\<rparr>)) =
     [''S002'', ''S003''] \<and>
   courses (seeded_db\<lparr>students := tl seed_students, grades := []\<rparr>) = seed_courses \<and>
   grades (seeded_db\<lparr>students := tl seed_students, grades := []\<rparr>) = [] \<and>
   db_init_and_seed (seeded_db\<lparr>students := tl seed_students, grades := []\<rparr>) =
     (False, seeded_db\<lparr>students := tl seed_students, grades := []\<rparr>)"
proof (intro conjI)
  note defs = main_delete_student_def main_delete_enrollment_def and_then_def
    db_delete_student_def db_delete_enrollment_def step_delete_student_def
    step_delete_enrollment_def remove_student_def remove_enrollment_def prepare_ok_def
    Let_def seed_defs
  show "main_delete_student seeded_db seeded_data ''S001'' =
     (True, seeded_db\<lparr>students := tl seed_students, grades := drop 2 seed_grades\<rparr>,
      seeded_data\<lparr>all_students := tl seed_students, all_grades := drop 2 seed_grades\<rparr>)"
    by (simp add: defs)
  show "main_delete_enrollment
       (seeded_db\<lparr>students := tl seed_students, grades := drop 2 seed_grades\<rparr>)
       (seeded_data\<lparr>all_students := tl seed_students, all_grades := drop 2 seed_grades\<rparr>)
       ''S002'' ''ENG101'' =
     (True, seeded_db\<lparr>students := tl seed_students, grades := drop 3 seed_grades\<rparr>,
      seeded_data\<lparr>all_students := tl seed_students, all_grades := drop 3 seed_grades\<rparr>)"
    by (simp add: defs)
  show "main_delete_enrollment
       (seeded_db\<lparr>students := tl seed_students, grades := drop 3 seed_grades\<rparr>)
       (seeded_data\<lparr>all_students := tl seed_students, all_grades := drop 3 seed_grades\<rparr>)
       ''S003'' ''MTH101'' =
     (True, seeded_db\<lparr>students := tl seed_students, grades := []\<rparr>,
      seeded_data\<lparr>all_students := tl seed_students, all_grades := []\<rparr>)"
    by (simp add: defs)
  show "io_ok (seeded_db\<lparr>students := tl seed_students, grades := []\<rparr>)"
    by (simp add: seed_defs)
  show "has_tables (seeded_db\<lparr>students := tl seed_students, grades := []\<rparr>)"
    by (simp add: seed_defs)
  show "map Student.roll_no
      (students (seeded_db\<lparr>students := tl seed_students, grades := []\<rparr>)) =
     [''S002'', ''S003'']"
    by (simp add: seed_defs)
  show "courses (seeded_db\<lparr>students := tl seed_students, grades := []\<rparr>) = seed_courses"
    by (simp add: seed_defs)
  show "grades (seeded_db\<lparr>students := tl seed_students, grades := []\<rparr>) = []"
    by simp
  show "db_init_and_seed (seeded_db\<lparr>students := tl seed_students, grades := []\<rparr>) =
     (False, seeded_db\<lparr>students := tl seed_students, grades := []\<rparr>)"
    by (simp add: db_init_and_seed_def exec_sql_ddl_def table_empty_def prepare_ok_def
        exec_sql_insert_grades_def step_insert_grade_def fk_ok_def seed_defs)
qed

text \<open>
  The same call on a new file, on the seeded store, and on a store whose \<^verbatim>\<open>students\<close>
  table is seeded while the other two tables are empty.
\<close>

lemma db_init_and_seed_examples:
  "db_init_and_seed fresh_db = (True, seeded_db) \<and>
   db_init_and_seed seeded_db = (True, seeded_db) \<and>
   db_init_and_seed (seeded_db\<lparr>courses := [], grades := []\<rparr>) = (True, seeded_db)"
  by (simp add: db_init_and_seed_def exec_sql_ddl_def table_empty_def prepare_ok_def
      exec_sql_insert_students_def exec_sql_insert_courses_def exec_sql_insert_grades_def
      step_insert_student_def step_insert_course_def step_insert_grade_def fk_ok_def
      seed_defs)


section \<open>The per-student report\<close>

lemma report_totals_acc:
  "report_totals roll gs (tot, n, passed) =
     (foldl dadd tot (map weighted (filter (\<lambda>g. Grade.roll_no g = roll) gs)),
      n + length (filter (\<lambda>g. Grade.roll_no g = roll) gs),
      passed + length (filter (\<lambda>g. Grade.roll_no g = roll \<and> dle (Finite 50) (weighted g)) gs))"
  by (induction gs arbitrary: tot n passed) auto

lemma report_lines_acc:
  "report_lines data roll gs (any, out) =
     (any \<or> list_ex (\<lambda>g. Grade.roll_no g = roll) gs,
      out @ map (report_line data) (filter (\<lambda>g. Grade.roll_no g = roll) gs))"
  by (induction gs arbitrary: any out) auto

text \<open>
  Claim C9. For a roll that exists in the mirror, \<^verbatim>\<open>student_report\<close> prints one line
  for each enrolment with that roll and for no other; when there are \<open>n > 0\<close> of them
  it prints their average weighted grade (the weighted grades added up in the order of
  the mirror, starting from 0, and the sum divided by \<open>n\<close>, all in \<^verbatim>\<open>double\<close>), the
  count \<open>n\<close> and the number of them whose weighted grade, as \<^verbatim>\<open>weighted()\<close> returns
  it, is at least 50; when there is none it prints "No courses enrolled." and no summary.
  The function returns only what it prints: the mirror is an argument and no result. For
  two enrolments with the weighted grades 60 and 90 the summary is average 75, 2 courses,
  2 passed.
\<close>

theorem C9_student_report_aggregates:
  assumes "exists_student d r"
  shows "(\<exists>nm. student_report d r =
      Report nm r
        (map (report_line d) (filter (\<lambda>g. Grade.roll_no g = r) (all_grades d)))
        (if filter (\<lambda>g. Grade.roll_no g = r) (all_grades d) = [] then None
         else Some
           (ddiv_count
              (foldl dadd (Finite 0)
                 (map weighted (filter (\<lambda>g. Grade.roll_no g = r) (all_grades d))))
              (length (filter (\<lambda>g. Grade.roll_no g = r) (all_grades d))),
            length (filter (\<lambda>g. Grade.roll_no g = r) (all_grades d)),
            length (filter (\<lambda>g. dle (Finite 50) (weighted g))
              (filter (\<lambda>g. Grade.roll_no g = r) (all_grades d)))))
        (filter (\<lambda>g. Grade.roll_no g = r) (all_grades d) = [])) \<and>
    (map weighted (filter (\<lambda>g. Grade.roll_no g = r) (all_grades d)) = [Finite 60, Finite 90]
       \<longrightarrow> rep_overall (student_report d r) = Some (Finite 75, 2, 2))"
proof -
  let ?gs = "filter (\<lambda>g. Grade.roll_no g = r) (all_grades d)"
  from assms obtain s where s: "find_if (\<lambda>x. Student.roll_no x = r) (all_students d) = Some s"
    by (auto simp: exists_student_find_if)
  from find_if_first [OF s] have roll: "Student.roll_no (all_students d ! s) = r"
    by simp
  have any: "list_ex (\<lambda>g. Grade.roll_no g = r) (all_grades d) \<longleftrightarrow> ?gs \<noteq> []"
    by (simp add: list_ex_iff filter_empty_conv)
  have passed: "filter (\<lambda>g. Grade.roll_no g = r \<and> dle (Finite 50) (weighted g)) (all_grades d) =
      filter (\<lambda>g. dle (Finite 50) (weighted g)) ?gs"
    by (simp add: conj_commute)
  have rep: "student_report d r =
      Report (name (all_students d ! s)) r (map (report_line d) ?gs)
        (if ?gs = [] then None
         else Some (ddiv_count (foldl dadd (Finite 0) (map weighted ?gs)) (length ?gs),
            length ?gs, length (filter (\<lambda>g. dle (Finite 50) (weighted g)) ?gs)))
        (?gs = [])"
    unfolding student_report_def s report_lines_acc report_totals_acc passed
    by (simp add: roll any)
  have example: "rep_overall (student_report d r) = Some (Finite 75, 2, 2)"
    if w: "map weighted ?gs = [Finite 60, Finite 90]"
  proof -
    from w obtain g1 g2 where gs: "?gs = [g1, g2]"
      and w1: "weighted g1 = Finite 60" and w2: "weighted g2 = Finite 90"
      by (auto simp: map_eq_Cons_conv)
    show ?thesis unfolding rep gs
      by (simp add: w1 w2 round_double_60 round_double_150 round_double_75)
  qed
  from rep example show ?thesis by blast
qed

text \<open>
  The witness of C9. In the first mirror student \<^verbatim>\<open>S001\<close> has the marks (25, 75) in
  Maths and (90, 90) in Science, with an enrolment of another student in between: the
  weighted grades are exactly 60 and 90, the average 75, and both pass. In the second
  mirror student \<^verbatim>\<open>S002\<close> has the marks (1, 71) and (43, 53): in exact arithmetic both
  weighted grades would be 50, but \<^verbatim>\<open>weighted()\<close> returns the double just below 50
  for each, so the report counts 0 passed of 2.
\<close>

theorem C9_witness:
  "exists_student report_data ''S001'' \<and>
   student_report report_data ''S001'' =
     Report ''Ava'' ''S001''
       [(''Maths'', Finite 25, Finite 75, Finite 60),
        (''Science'', Finite 90, Finite 90, Finite 90)]
       (Some (Finite 75, 2, 2)) False \<and>
   exists_student borderline_data ''S002'' \<and>
   student_report borderline_data ''S002'' =
     Report ''Leo'' ''S002''
       [(''Maths'', Finite 1, Finite 71, Finite (7036874417766399 / 2 ^ 47)),
        (''English'', Finite 43, Finite 53, Finite (7036874417766399 / 2 ^ 47))]
       (Some (Finite (7036874417766399 / 2 ^ 47), 2, 0)) False"
proof -
  have e1: "exists_student report_data ''S001''"
    by (simp add: exists_student_def report_data_def seed_defs)
  have e2: "exists_student borderline_data ''S002''"
    by (simp add: exists_student_def borderline_data_def seed_defs)
  have g1: "filter (\<lambda>g. Grade.roll_no g = ''S001'') (all_grades report_data) =
      [\<lparr>Grade.roll_no = ''S001'', course_code = ''MTH101'', internal_mark = Finite 25,
        final_mark = Finite 75\<rparr>,
       \<lparr>Grade.roll_no = ''S001'', course_code = ''SCI101'', internal_mark = Finite 90,
        final_mark = Finite 90\<rparr>]"
    by (simp add: report_data_def)
  have g2: "filter (\<lambda>g. Grade.roll_no g = ''S002'') (all_grades borderline_data) =
      [\<lparr>Grade.roll_no = ''S002'', course_code = ''MTH101'', internal_mark = Finite 1,
        final_mark = Finite 71\<rparr>,
       \<lparr>Grade.roll_no = ''S002'', course_code = ''ENG101'', internal_mark = Finite 43,
        final_mark = Finite 53\<rparr>]"
    by (simp add: borderline_data_def)
  have n1: "rep_name (student_report report_data ''S001'') = ''Ava''"
    by (simp add: student_report_def report_data_def seed_defs split: prod.splits)
  have n2: "rep_name (student_report borderline_data ''S002'') = ''Leo''"
    by (simp add: student_report_def borderline_data_def seed_defs split: prod.splits)
  from C9_student_report_aggregates [OF e1] obtain nm1 where
    r1: "student_report report_data ''S001'' =
      Report nm1 ''S001''
       [(''Maths'', Finite 25, Finite 75, Finite 60),
        (''Science'', Finite 90, Finite 90, Finite 90)]
       (Some (Finite 75, 2, 2)) False"
    unfolding g1
    by (auto simp: report_line_def weighted_25_75 weighted_90_90 round_double_60
        round_double_150 round_double_75 report_data_def seed_defs)
  let ?a = "\<lparr>Grade.roll_no = ''S002'', course_code = ''MTH101'', internal_mark = Finite 1,
        final_mark = Finite 71\<rparr>"
  let ?b = "\<lparr>Grade.roll_no = ''S002'', course_code = ''ENG101'', internal_mark = Finite 43,
        final_mark = Finite 53\<rparr>"
  have w2: "map weighted [?a, ?b] =
      [Finite (7036874417766399 / 2 ^ 47), Finite (7036874417766399 / 2 ^ 47)]"
    by (simp only: list.map weighted_1_71 weighted_43_53)
  have l2: "length [?a, ?b] = 2" by simp
  have a2: "ddiv_count (foldl dadd (Finite 0)
        [Finite (7036874417766399 / 2 ^ 47), Finite (7036874417766399 / 2 ^ 47)]) 2 =
      Finite (7036874417766399 / 2 ^ 47)"
    by (simp only: foldl.simps dadd.simps ddiv_count.simps total_borderline_1
        total_borderline_2 average_borderline)
  have p2: "filter (\<lambda>g. dle (Finite 50) (weighted g)) [?a, ?b] = []"
    by (simp add: weighted_1_71 weighted_43_53)
  have t2: "map (report_line borderline_data) [?a, ?b] =
      [(''Maths'', Finite 1, Finite 71, Finite (7036874417766399 / 2 ^ 47)),
       (''English'', Finite 43, Finite 53, Finite (7036874417766399 / 2 ^ 47))]"
    by (simp add: report_line_def weighted_1_71 weighted_43_53 borderline_data_def seed_defs)
  from C9_student_report_aggregates [OF e2] obtain nm2 where
    r2: "student_report borderline_data ''S002'' =
      Report nm2 ''S002''
       [(''Maths'', Finite 1, Finite 71, Finite (7036874417766399 / 2 ^ 47)),
        (''English'', Finite 43, Finite 53, Finite (7036874417766399 / 2 ^ 47))]
       (Some (Finite (7036874417766399 / 2 ^ 47), 2, 0)) False"
    unfolding g2 w2 l2 a2 p2 t2 by auto
  from n1 r1 have "nm1 = ''Ava''" by simp
  moreover from n2 r2 have "nm2 = ''Leo''" by simp
  ultimately show ?thesis using e1 e2 r1 r2 by simp
qed


section \<open>Removing a parent that is not in the mirror\<close>

text \<open>
  Claim C10. When no student has the roll, \<^verbatim>\<open>remove_student\<close> returns false and still
  erases every grade with that roll (and nothing else); when no course has the code,
  \<^verbatim>\<open>remove_course\<close> returns false and still erases every grade with that course code.
  In general the returned boolean is the presence of the student, or of the course,
  before the call.
\<close>

theorem C10_remove_reports_parent_only:
  "(\<not> exists_student d r \<longrightarrow>
      remove_student d r =
        (False, d\<lparr>all_grades := filter (\<lambda>g. Grade.roll_no g \<noteq> r) (all_grades d)\<rparr>)) \<and>
   (\<not> exists_course d cc \<longrightarrow>
      remove_course d cc =
        (False, d\<lparr>all_grades := filter (\<lambda>g. course_code g \<noteq> cc) (all_grades d)\<rparr>)) \<and>
   fst (remove_student d r) = exists_student d r \<and>
   fst (remove_course d cc) = exists_course d cc"
proof (intro conjI impI)
  assume a: "\<not> exists_student d r"
  then have "filter (\<lambda>s. Student.roll_no s \<noteq> r) (all_students d) = all_students d"
    by (simp add: exists_student_def list_ex_iff)
  then show "remove_student d r =
      (False, d\<lparr>all_grades := filter (\<lambda>g. Grade.roll_no g \<noteq> r) (all_grades d)\<rparr>)"
    by (simp add: remove_student_def Let_def erase_remove_if_filter)
next
  assume a: "\<not> exists_course d cc"
  then have "filter (\<lambda>c. code c \<noteq> cc) (all_courses d) = all_courses d"
    by (simp add: exists_course_def list_ex_iff)
  then show "remove_course d cc =
      (False, d\<lparr>all_grades := filter (\<lambda>g. course_code g \<noteq> cc) (all_grades d)\<rparr>)"
    by (simp add: remove_course_def Let_def erase_remove_if_filter)
next
  show "fst (remove_student d r) = exists_student d r"
    by (simp add: remove_student_def Let_def erase_remove_if_filter exists_student_def
        length_filter_neq_iff)
next
  show "fst (remove_course d cc) = exists_course d cc"
    by (simp add: remove_course_def Let_def erase_remove_if_filter exists_course_def
        length_filter_neq_iff)
qed

text \<open>
  The witness of C10: a mirror without students and courses that still holds the four
  seed enrolments loses the two of \<^verbatim>\<open>S001\<close>, and the two of \<^verbatim>\<open>MTH101\<close>, with the
  result false.
\<close>

theorem C10_witness:
  "\<not> exists_student (seeded_data\<lparr>all_students := [], all_courses := []\<rparr>) ''S001'' \<and>
   remove_student (seeded_data\<lparr>all_students := [], all_courses := []\<rparr>) ''S001'' =
     (False, \<lparr>all_students = [], all_courses = [],
        all_grades =
          [\<lparr>Grade.roll_no = ''S002'', course_code = ''ENG101'', internal_mark = Finite 80,
            final_mark = Finite 92\<rparr>,
           \<lparr>Grade.roll_no = ''S003'', course_code = ''MTH101'', internal_mark = Finite 55,
            final_mark = Finite 60\<rparr>]\<rparr>) \<and>
   \<not> exists_course (seeded_data\<lparr>all_students := [], all_courses := []\<rparr>) ''MTH101'' \<and>
   remove_course (seeded_data\<lparr>all_students := [], all_courses := []\<rparr>) ''MTH101'' =
     (False, \<lparr>all_students = [], all_courses = [],
        all_grades =
          [\<lparr>Grade.roll_no = ''S001'', course_code = ''SCI101'', internal_mark = Finite 62,
            final_mark = Finite 70\<rparr>,
           \<lparr>Grade.roll_no = ''S002'', course_code = ''ENG101'', internal_mark = Finite 80,
            final_mark = Finite 92\<rparr>]\<rparr>)"
  using C10_remove_reports_parent_only
    [of "seeded_data\<lparr>all_students := [], all_courses := []\<rparr>" "''S001''" "''MTH101''"]
  by (simp add: exists_student_def exists_course_def seed_defs)

end
